theory Spec2Isabelle
  imports Complex_Main "HOL-Library.Word"
begin

unbundle bit_operations_syntax

section \<open>Numbers\<close>

text \<open>
  A JavaScript Number is modelled by a \<open>real\<close>: arithmetic is exact, and the values
  \<open>NaN\<close> and \<open>\<plusminus>Infinity\<close> are not represented. Where the source can produce one of
  them (a remainder or a quotient with divisor 0, \<open>Math.min()\<close> of nothing) the
  definition says what stands for it. An integer-valued Number that is fed to
  \<open>Math.imul\<close> or to \<open>&\<close> is an \<open>int\<close>, and the 32-bit conversion is a \<open>32 word\<close>.
\<close>

definition js_trunc :: "real \<Rightarrow> int" where
  \<comment> \<open>rounding towards zero, as the quotient of \<open>%\<close> is\<close>
  "js_trunc x = (if 0 \<le> x then \<lfloor>x\<rfloor> else \<lceil>x\<rceil>)"

definition js_rem :: "real \<Rightarrow> real \<Rightarrow> real" where
  \<comment> \<open>\<open>x % n\<close>: the remainder has the sign of \<open>x\<close>. For \<open>n = 0\<close> the source gives
      \<open>NaN\<close>; every use below has \<open>n > 0\<close>.\<close>
  "js_rem x n = x - n * real_of_int (js_trunc (x / n))"

definition js_round :: "real \<Rightarrow> int" where
  \<comment> \<open>\<open>Math.round\<close>: halves go up\<close>
  "js_round x = \<lfloor>x + 1 / 2\<rfloor>"

section \<open>The paint worklet\<close>

subsection \<open>Deterministic PRNG\<close>

definition imul :: "int \<Rightarrow> int \<Rightarrow> int" where
  \<comment> \<open>\<open>Math.imul\<close>: both operands to 32 bits, the product wrapped, read as signed\<close>
  "imul a b = sint ((word_of_int a :: 32 word) * word_of_int b)"

definition and31 :: "int \<Rightarrow> int" where
  \<comment> \<open>\<open>x & 0x7fffffff\<close>\<close>
  "and31 x = sint ((word_of_int x :: 32 word) AND 0x7fffffff)"

definition lcg_step :: "int \<Rightarrow> int" where
  \<comment> \<open>\<open>seed = Math.imul(214013, seed) + 2531011\<close>; the sum is not wrapped\<close>
  "lcg_step seed = imul 214013 seed + 2531011"

definition lcg_bits :: "int \<Rightarrow> int" where
  \<comment> \<open>\<open>Math.imul(48271, seed) & 0x7fffffff\<close> for the seed just stored\<close>
  "lcg_bits seed = and31 (imul 48271 seed)"

definition lcgrand :: "int \<Rightarrow> real \<Rightarrow> real \<Rightarrow> real \<times> int" where
  \<comment> \<open>one call \<open>rand(a, b)\<close> of the closure \<open>lcgrand(seed)\<close>: the value drawn and the
      seed the closure holds afterwards\<close>
  "lcgrand seed a b =
     (let seed' = lcg_step seed
      in (a + (\<bar>b - a\<bar> * real_of_int (lcg_bits seed')) / 2147483647, seed'))"

definition lcgrand_default :: "int \<Rightarrow> real \<times> int" where
  \<comment> \<open>\<open>rand()\<close>: the defaults \<open>a = 0\<close>, \<open>b = 1\<close>\<close>
  "lcgrand_default seed = lcgrand seed 0 1"

subsection \<open>Vector and wrap helpers\<close>

definition lerp :: "real \<Rightarrow> real \<Rightarrow> real \<Rightarrow> real" where
  "lerp a b t = a + (b - a) * t"

definition pol2vec :: "real \<Rightarrow> real \<Rightarrow> real \<times> real" where
  "pol2vec l a = (l * cos a, l * sin a)"

definition vecmag :: "real \<times> real \<Rightarrow> real" where
  "vecmag v = (case v of (x, y) \<Rightarrow> sqrt (x * x + y * y))"

definition vecnorm :: "real \<times> real \<Rightarrow> real \<times> real" where
  "vecnorm v = (case v of (x, y) \<Rightarrow>
     (let l = vecmag (x, y) in if l = 0 then (0, 0) else (x / l, y / l)))"

definition trapezoidalWave :: "real \<Rightarrow> real \<Rightarrow> real \<Rightarrow> real" where
  "trapezoidalWave t l n =
     (if t < 0.2 then t / 0.2
      else if t > n - l then (n - t) / l
      else 1)"

definition cycle :: "real \<Rightarrow> real \<Rightarrow> real" where
  \<comment> \<open>\<open>_cycle\<close>\<close>
  "cycle x n = js_rem (js_rem x n + n) n"

definition mirror :: "real \<Rightarrow> real \<Rightarrow> real \<Rightarrow> real" where
  \<comment> \<open>\<open>_mirror\<close>\<close>
  "mirror x n r = (if x < r then n + x else if x > n - r then x - n else x)"

definition cycleBounds :: "real \<times> real \<Rightarrow> real \<times> real \<Rightarrow> real \<Rightarrow> (real \<times> real) list" where
  "cycleBounds p s r = (case p of (x, y) \<Rightarrow> case s of (w, h) \<Rightarrow>
     (let tx = cycle x w; ty = cycle y h
      in [(tx, ty), (mirror tx w r, mirror ty h r)]))"

subsection \<open>The painter's inputs\<close>

datatype shape = Square | Circle

record worklet_env =
  is_worklet :: bool  \<comment> \<open>\<open>_IS_WORKLET\<close>\<close>
  devicePixelRatio :: real

record paint_size =
  size_width :: real
  size_height :: real

record accent =
  accent_hue :: string  \<comment> \<open>\<open>accent[0]\<close>\<close>
  accent_sat :: string  \<comment> \<open>\<open>accent[1]\<close>\<close>
  accent_light :: int  \<comment> \<open>\<open>parseInt(accent[2])\<close>\<close>

text \<open>
  The channel values published on the element, already parsed: \<open>None\<close> is a property
  that is absent (or, for \<open>--t\<close>, one that \<open>parseFloat\<close> turns into \<open>NaN\<close>).
  \<open>inputProperties\<close> names \<open>--t\<close>, \<open>--gap\<close> and \<open>--accent\<close> only, so \<open>paint\<close> is
  handed these three; \<open>--density\<close> is published by the controller and is not among them.
\<close>

record channels =
  ch_t :: "real option"
  ch_gap :: "(real \<times> real) option"
  ch_accent :: "accent option"
  ch_density :: "real option"

definition inputProperties :: "string list" where
  "inputProperties = [''--t'', ''--gap'', ''--accent'']"

definition default_accent :: accent where
  \<comment> \<open>\<open>"0 0% 70%"\<close>\<close>
  "default_accent = \<lparr>accent_hue = ''0'', accent_sat = ''0%'', accent_light = 70\<rparr>"

definition frict :: real where "frict = 0"
definition vmin :: real where "vmin = 2"
definition vmax :: real where "vmax = 12"
definition density :: real where "density = 6"

text \<open>The constants that \<open>paint\<close> binds before its loop.\<close>

record surface =
  s_worldt :: real
  s_dprx :: real
  s_accent :: accent
  s_width :: real
  s_height :: real
  s_vgap :: real
  s_hgap :: real
  s_n :: real
  s_sizedev :: real

definition surface_of :: "worklet_env \<Rightarrow> paint_size \<Rightarrow> channels \<Rightarrow> surface" where
  "surface_of env sz ch =
     (let worldt = (case ch_t ch of None \<Rightarrow> 0 | Some v \<Rightarrow> v);
          dprx = (if is_worklet env then 1 else devicePixelRatio env);
          acc = (case ch_accent ch of None \<Rightarrow> default_accent | Some a \<Rightarrow> a);
          w = size_width sz / dprx;
          h = size_height sz / dprx;
          g = (case ch_gap ch of None \<Rightarrow> (0, 0) | Some vh \<Rightarrow> vh);
          n = min 4000 ((w * h) / density);
          sizedev = (if devicePixelRatio env > 1 then 0.5 else 0)
      in \<lparr>s_worldt = worldt, s_dprx = dprx, s_accent = acc, s_width = w, s_height = h,
          s_vgap = fst g, s_hgap = snd g, s_n = n, s_sizedev = sizedev\<rparr>)"

subsection \<open>One particle\<close>

record particle =
  p_x0 :: real
  p_y0 :: real
  p_v0mag :: real
  p_size0 :: real
  p_lightness :: int
  p_v0 :: "real \<times> real"
  p_shape :: shape
  p_lifetime :: real
  p_respawn :: real
  p_phase :: real

definition particle_init :: "surface \<Rightarrow> int \<Rightarrow> particle \<times> int" where
  \<comment> \<open>the initial values of one loop iteration, the seed threaded through the ten
      calls of \<open>rand\<close> in the order of the source\<close>
  "particle_init c seed0 =
     (case lcgrand seed0 (s_vgap c) (s_width c - s_vgap c) of (x0, seed1) \<Rightarrow>
      case lcgrand seed1 (s_hgap c) (s_height c - s_hgap c) of (y0, seed2) \<Rightarrow>
      case lcgrand seed2 vmin vmax of (v0mag, seed3) \<Rightarrow>
      case lcgrand seed3 1 (1 + s_sizedev c) of (size0, seed4) \<Rightarrow>
      case lcgrand_default seed4 of (blend, seed5) \<Rightarrow>
      case lcgrand seed5 0 (pi * 2) of (angle, seed6) \<Rightarrow>
      case lcgrand_default seed6 of (coin, seed7) \<Rightarrow>
      case lcgrand seed7 0.3 1.5 of (lifetime, seed8) \<Rightarrow>
      case lcgrand seed8 0 1 of (respawn, seed9) \<Rightarrow>
      case lcgrand seed9 0 (lifetime + respawn) of (phase, seed10) \<Rightarrow>
        (let l = real_of_int (accent_light (s_accent c))
         in \<lparr>p_x0 = x0, p_y0 = y0, p_v0mag = v0mag, p_size0 = size0,
             p_lightness = \<lfloor>lerp (l * 0.5) l blend\<rfloor>,
             p_v0 = pol2vec v0mag angle,
             p_shape = (if coin > 0.5 then Square else Circle),
             p_lifetime = lifetime, p_respawn = respawn, p_phase = phase\<rparr>,
         seed10))"

definition local_age :: "real \<Rightarrow> particle \<Rightarrow> real" where
  \<comment> \<open>\<open>t = Math.min(lifetime, (worldt + phase) % (lifetime + respawn))\<close>\<close>
  "local_age worldt p =
     min (p_lifetime p) (js_rem (worldt + p_phase p) (p_lifetime p + p_respawn p))"

definition visibility :: "real \<Rightarrow> real \<Rightarrow> real" where
  \<comment> \<open>\<open>trapezoidalWave(t, 0.5, lifetime)\<close>\<close>
  "visibility t lifetime = trapezoidalWave t 0.5 lifetime"

definition opacity :: "real \<Rightarrow> real \<Rightarrow> real" where
  \<comment> \<open>\<open>alpha = 1 - t / lifetime\<close>\<close>
  "opacity t lifetime = 1 - t / lifetime"

text \<open>What one iteration has computed when it reaches the drawing loop.\<close>

record render_state =
  rs_positions :: "(real \<times> real) list"
  rs_size :: real
  rs_visibility :: real
  rs_alpha :: real
  rs_shape :: shape
  rs_lightness :: int

definition particle_state :: "surface \<Rightarrow> particle \<Rightarrow> render_state option" where
  \<comment> \<open>\<open>None\<close> is the \<open>continue\<close> of a particle whose age has reached its lifetime\<close>
  "particle_state c p =
     (let t = local_age (s_worldt c) p
      in if t \<ge> p_lifetime p then None
         else
           (let vn = vecnorm (p_v0 p);
                vx = fst (p_v0 p) - 0.5 * frict * t * fst vn;
                vy = snd (p_v0 p) - 0.5 * frict * t * snd vn;
                x = p_x0 p + vx * t;
                y = p_y0 p + vy * t;
                vis = visibility t (p_lifetime p);
                alpha = opacity t (p_lifetime p);
                sz = p_size0 p * vis
            in Some \<lparr>rs_positions = cycleBounds (x, y) (s_width c, s_height c) (sz / 2),
                     rs_size = sz, rs_visibility = vis, rs_alpha = alpha,
                     rs_shape = p_shape p, rs_lightness = p_lightness p\<rparr>))"

subsection \<open>Drawing\<close>

record fill_style =
  fs_hue :: string
  fs_sat :: string
  fs_lightness :: int
  fs_alpha_percent :: int  \<comment> \<open>\<open>Math.round(alpha * 100)\<close>\<close>

datatype draw =
  ClearRect real real real real
| FillRect fill_style real real real real
| FillArc fill_style real real real

definition draw_at :: "surface \<Rightarrow> render_state \<Rightarrow> real \<times> real \<Rightarrow> draw" where
  "draw_at c rs pos = (case pos of (wx, wy) \<Rightarrow>
     (let fs = \<lparr>fs_hue = accent_hue (s_accent c), fs_sat = accent_sat (s_accent c),
                fs_lightness = rs_lightness rs,
                fs_alpha_percent = js_round (rs_alpha rs * 100)\<rparr>;
          d = s_dprx c
      in if rs_shape rs = Square
         then FillRect fs (d * wx) (d * wy) (d * rs_size rs) (d * rs_size rs)
         else FillArc fs (d * wx) (d * wy) ((d * rs_size rs) / 2)))"

definition particle_draws :: "surface \<Rightarrow> particle \<Rightarrow> draw list" where
  "particle_draws c p =
     (case particle_state c p of None \<Rightarrow> []
      | Some rs \<Rightarrow> map (draw_at c rs) (rs_positions rs))"

function paint_loop :: "surface \<Rightarrow> int \<Rightarrow> nat \<Rightarrow> draw list" where
  \<comment> \<open>\<open>for (let i = 0; i < n; ++i)\<close>, with the seed held by \<open>rand\<close>\<close>
  "paint_loop c seed i =
     (if real i < s_n c
      then particle_draws c (fst (particle_init c seed))
             @ paint_loop c (snd (particle_init c seed)) (Suc i)
      else [])"
  by pat_completeness auto
termination
  by (relation "measure (\<lambda>(c, seed, i). nat \<lceil>s_n c\<rceil> - i)") (auto, linarith)

definition paint :: "worklet_env \<Rightarrow> paint_size \<Rightarrow> channels \<Rightarrow> draw list" where
  "paint env sz ch =
     (let c = surface_of env sz ch
      in ClearRect 0 0 (size_width sz) (size_height sz) # paint_loop c 19234 0)"

subsection \<open>The per-particle seed of the specification\<close>

text \<open>
  The specification derives one seed per particle from the base seed. The source seeds
  \<open>rand\<close> once per call of \<open>paint\<close>; the two definitions below say which seed the
  specification's reading gives particle \<open>i\<close>, to be compared with the loop.
\<close>

definition particle_seed :: "int \<Rightarrow> nat \<Rightarrow> int" where
  "particle_seed base i = (lcg_step ^^ (10 * i)) base"

definition particle_of_index :: "surface \<Rightarrow> nat \<Rightarrow> particle" where
  "particle_of_index c i = fst (particle_init c (particle_seed 19234 i))"

section \<open>The clock controller\<close>

subsection \<open>The element's style and the host\<close>

datatype csslen = Auto | Px real | PxInfinity

text \<open>
  A value of the element's style stands for the string the source writes: \<open>Fixed3 v\<close>
  for the text \<open>v.toFixed(3)\<close> of the number \<open>v\<close> (its digits are not computed: they
  follow the rounding of the double that holds \<open>v\<close>), \<open>Seconds v\<close> for
  \<open>`${v}s`\<close>, \<open>GapPx a b\<close> for the two lengths of \<open>--gap\<close>, \<open>Paint tile ws hs\<close> for
  \<open>paint(spoiler) ... / ws hs\<close>.
\<close>

datatype cssval =
  Fixed3 real
| Seconds real
| GapPx real real
| Words bool
| Density real
| Accent real real real
| Fallback string
| Paint bool csslen csslen
| VarFallback

type_synonym style = "string \<rightharpoonup> cssval"

record host =
  isCSSHoudiniSupported :: bool
  prefersReducedMotion :: bool
  hasIntersectionObserver :: bool
  display_inline :: bool  \<comment> \<open>\<open>getComputedStyle(el).display\<close> is \<open>"inline"\<close>\<close>
  rect_width :: real  \<comment> \<open>\<open>getBoundingClientRect()\<close>\<close>
  rect_height :: real
  client_rect_heights :: "real list"  \<comment> \<open>the heights of \<open>getClientRects()\<close>\<close>
  accent_hsl :: "real \<times> real \<times> real"
    \<comment> \<open>what \<open>colord(accentColor).toHsl()\<close> answers for the colour of this call\<close>

datatype gap_option = GapNumber real | GapBool bool

datatype fallback_option = FallbackColor string | FallbackFalse

record options =
  opt_fps :: "real option"
  opt_gap :: "gap_option option"
  opt_density :: "real option"
  opt_mimicWords :: "bool option"
  opt_accentColor :: "string option"
  opt_fallback :: "fallback_option option"
  opt_forceFallback :: "bool option"
  opt_onlyInViewport :: "bool option"

datatype animate = AnimateBool bool | AnimateNumber real

datatype error = PainterDestroyed
  \<comment> \<open>\<open>Error("Painter has been destroyed and can't be used again.")\<close>\<close>

definition DEFAULT_FPS :: real where "DEFAULT_FPS = 24"
definition BLOCK_MAX_TILE :: real where "BLOCK_MAX_TILE = 293"
definition INLINE_MAX_TILE :: real where "INLINE_MAX_TILE = 333"
definition DEFAULT_FADE_DURATION :: real where "DEFAULT_FADE_DURATION = 1.5"
definition GAP_RATIO :: real where "GAP_RATIO = 8"

text \<open>
  The controller's fields, and with them the host's table of frame requests:
  \<open>raf_next\<close> is the handle the next \<open>requestAnimationFrame\<close> returns (handles are
  positive), \<open>raf_pending\<close> the requests not yet run or cancelled.
\<close>

record painter =
  sp_style :: style
  sp_maxFPS :: real
  sp_forceFallback :: bool
  sp_wasDestroyed :: bool
  sp_isHidden :: bool
  sp_fadeDuration :: real  \<comment> \<open>\<open>#_fadeDuration\<close>\<close>
  sp_t :: real  \<comment> \<open>\<open>#_t\<close>\<close>
  sp_t0 :: real  \<comment> \<open>\<open>#t0\<close>\<close>
  sp_tstop :: "real option"  \<comment> \<open>\<open>#_tstop\<close>\<close>
  sp_raf :: "nat option"  \<comment> \<open>\<open>#raf\<close>\<close>
  sp_observer :: bool  \<comment> \<open>\<open>#observer\<close> is not \<open>null\<close>\<close>
  raf_next :: nat
  raf_pending :: "nat list"

definition setProperty :: "string \<Rightarrow> cssval \<Rightarrow> painter \<Rightarrow> painter" where
  "setProperty k v s = s\<lparr>sp_style := (sp_style s)(k \<mapsto> v)\<rparr>"

definition removeProperty :: "string \<Rightarrow> painter \<Rightarrow> painter" where
  "removeProperty k s = s\<lparr>sp_style := (sp_style s)(k := None)\<rparr>"

definition requestAnimationFrame :: "painter \<Rightarrow> nat \<times> painter" where
  "requestAnimationFrame s =
     (raf_next s, s\<lparr>raf_next := Suc (raf_next s), raf_pending := raf_pending s @ [raf_next s]\<rparr>)"

definition cancelAnimationFrame :: "nat \<Rightarrow> painter \<Rightarrow> painter" where
  "cancelAnimationFrame h s = s\<lparr>raf_pending := removeAll h (raf_pending s)\<rparr>"

subsection \<open>Accessors\<close>

definition set_fadeDuration :: "real \<Rightarrow> painter \<Rightarrow> painter" where
  "set_fadeDuration v s = setProperty ''--fade'' (Seconds v) (s\<lparr>sp_fadeDuration := v\<rparr>)"

definition set_tstop :: "real option \<Rightarrow> painter \<Rightarrow> painter" where
  "set_tstop v s =
     (case v of
        Some x \<Rightarrow> setProperty ''--t-stop'' (Fixed3 x) (s\<lparr>sp_tstop := v\<rparr>)
      | None \<Rightarrow> removeProperty ''--t-stop'' (s\<lparr>sp_tstop := v\<rparr>))"

definition set_t :: "real \<Rightarrow> painter \<Rightarrow> painter" where
  "set_t v s = setProperty ''--t'' (Fixed3 v) (s\<lparr>sp_t := v\<rparr>)"

definition isHidden :: "painter \<Rightarrow> bool" where
  "isHidden s = sp_isHidden s"

definition isAnimating :: "painter \<Rightarrow> bool" where
  "isAnimating s = (sp_raf s \<noteq> None)"

definition parseFadeDuration :: "host \<Rightarrow> animate \<Rightarrow> real" where
  "parseFadeDuration h v =
     (if prefersReducedMotion h then 0
      else case v of
             AnimateBool b \<Rightarrow> (if b then DEFAULT_FADE_DURATION else 0)
           | AnimateNumber d \<Rightarrow> d)"

subsection \<open>The animation loop\<close>

definition shouldStop :: "painter \<Rightarrow> bool" where
  \<comment> \<open>\<open>this.#tstop && this.t > this.#tstop + this.#fadeDuration\<close>: a stop mark that is
      \<open>null\<close> or \<open>0\<close> is falsy\<close>
  "shouldStop s =
     (case sp_tstop s of
        None \<Rightarrow> False
      | Some ts \<Rightarrow> ts \<noteq> 0 \<and> sp_t s > ts + sp_fadeDuration s)"

definition below_interval :: "real \<Rightarrow> real \<Rightarrow> bool" where
  \<comment> \<open>\<open>dt < 1000 / maxFPS\<close>; the quotient is \<open>Infinity\<close> for \<open>maxFPS = 0\<close>\<close>
  "below_interval dt fps = (if fps = 0 then True else dt < 1000 / fps)"

definition frame :: "real \<Rightarrow> painter \<Rightarrow> painter" where
  \<comment> \<open>\<open>#frame(now)\<close>\<close>
  "frame now s =
     (if sp_wasDestroyed s then s
      else
        (let s1 = (if sp_maxFPS s > 0 \<and> \<not> shouldStop s
                   then (case requestAnimationFrame s of (h, s') \<Rightarrow> s'\<lparr>sp_raf := Some h\<rparr>)
                   else s);
             dt = now - sp_t0 s1
         in if dt > 0 \<and> below_interval dt (sp_maxFPS s1) then s1
            else (set_t (sp_t s1 + dt / 1000) s1)\<lparr>sp_t0 := now\<rparr>))"

definition startAnimation :: "real \<Rightarrow> painter \<Rightarrow> painter" where
  \<comment> \<open>the first argument is what \<open>performance.now()\<close> returns\<close>
  "startAnimation perf_now s = frame perf_now (s\<lparr>sp_t0 := perf_now\<rparr>)"

definition stopAnimation :: "painter \<Rightarrow> painter" where
  "stopAnimation s =
     (case sp_raf s of
        None \<Rightarrow> s
      | Some h \<Rightarrow> if h \<noteq> 0 then (cancelAnimationFrame h s)\<lparr>sp_raf := None\<rparr> else s)"

text \<open>
  The host runs the frame requests that are pending when a frame begins, all with the
  same time stamp; requests made meanwhile wait for the next frame.
\<close>

fun run_callbacks :: "nat list \<Rightarrow> real \<Rightarrow> painter \<Rightarrow> painter" where
  "run_callbacks [] now s = s"
| "run_callbacks (h # hs) now s = run_callbacks hs now (frame now s)"

definition deliver_frame :: "real \<Rightarrow> painter \<Rightarrow> painter" where
  "deliver_frame now s = run_callbacks (raf_pending s) now (s\<lparr>raf_pending := []\<rparr>)"

subsection \<open>Public operations\<close>

definition useBackgroundStyle :: "csslen \<Rightarrow> csslen \<Rightarrow> bool \<Rightarrow> painter \<Rightarrow> painter" where
  "useBackgroundStyle ws hs tile s = setProperty ''background'' (Paint tile ws hs) s"

definition number_of_gap :: "gap_option \<Rightarrow> real" where
  \<comment> \<open>\<open>Number(gap)\<close>\<close>
  "number_of_gap g = (case g of GapNumber v \<Rightarrow> v | GapBool b \<Rightarrow> (if b then 1 else 0))"

definition heightOfLine :: "host \<Rightarrow> real option" where
  \<comment> \<open>\<open>Math.min(...rects.map((r) => r.height))\<close>; \<open>None\<close> is the \<open>Infinity\<close> of no
      rectangle at all\<close>
  "heightOfLine h =
     (case client_rect_heights h of [] \<Rightarrow> None | x # xs \<Rightarrow> Some (fold min xs x))"

definition update_block :: "host \<Rightarrow> real \<Rightarrow> painter \<Rightarrow> painter" where
  \<comment> \<open>the branch of \<open>update\<close> for block elements\<close>
  "update_block h gap s =
     (if rect_width h * rect_height h > BLOCK_MAX_TILE * BLOCK_MAX_TILE
      then useBackgroundStyle (Px (min (rect_width h) BLOCK_MAX_TILE))
             (Px (min (rect_height h) BLOCK_MAX_TILE)) True s
      else
        (let capGap = real_of_int
               \<lfloor>min gap (min (rect_width h / GAP_RATIO) (rect_height h / GAP_RATIO))\<rfloor>
         in setProperty ''--gap'' (GapPx capGap capGap) s))"

definition update_inline :: "host \<Rightarrow> real \<Rightarrow> painter \<Rightarrow> painter" where
  \<comment> \<open>the branch of \<open>update\<close> for inline elements\<close>
  "update_inline h gap s =
     (case heightOfLine h of
        None \<Rightarrow>
          setProperty ''--gap'' (GapPx 0 (real_of_int \<lfloor>gap\<rfloor>))
            (useBackgroundStyle (Px INLINE_MAX_TILE) PxInfinity True s)
      | Some hl \<Rightarrow>
          setProperty ''--gap'' (GapPx 0 (real_of_int \<lfloor>min (hl / GAP_RATIO) gap\<rfloor>))
            (useBackgroundStyle (Px INLINE_MAX_TILE) (Px hl) True s))"

definition update :: "host \<Rightarrow> options \<Rightarrow> painter \<Rightarrow> error + painter" where
  "update h opts s =
     (if sp_wasDestroyed s then Inl PainterDestroyed
      else
        (let fps = (case opt_fps opts of None \<Rightarrow> 24 | Some v \<Rightarrow> v);
             gap = number_of_gap (case opt_gap opts of None \<Rightarrow> GapNumber 6 | Some g \<Rightarrow> g);
             mimicWords = (case opt_mimicWords opts of None \<Rightarrow> False | Some b \<Rightarrow> b);
             dens = (case opt_density opts of None \<Rightarrow> 0.12 | Some d \<Rightarrow> d);
             fallback = (case opt_fallback opts of None \<Rightarrow> FallbackColor ''black'' | Some f \<Rightarrow> f);
             forceFallback = (opt_forceFallback opts = Some True);
             s1 = s\<lparr>sp_maxFPS := (if prefersReducedMotion h then 0 else fps),
                    sp_forceFallback := forceFallback\<rparr>
         in if \<not> isCSSHoudiniSupported h \<or> forceFallback
            then Inr (setProperty ''--fallback''
                   (Fallback (case fallback of
                                FallbackColor c \<Rightarrow> (if c = [] then ''initial'' else c)
                              | FallbackFalse \<Rightarrow> ''initial'')) s1)
            else
              (let isBlockElement = \<not> display_inline h;
                   s2 = useBackgroundStyle Auto Auto False s1;
                   s3 = (if isBlockElement then update_block h gap s2 else s2);
                   s4 = (if \<not> isBlockElement then update_inline h gap s3 else s3);
                   s5 = setProperty ''--words''
                          (Words (if isBlockElement then False else mimicWords)) s4;
                   s6 = setProperty ''--density'' (Density dens) s5
               in Inr (case opt_accentColor opts of
                         None \<Rightarrow> removeProperty ''--accent'' s6
                       | Some c \<Rightarrow>
                           if c = [] then removeProperty ''--accent'' s6
                           else (case accent_hsl h of (hu, sa, li) \<Rightarrow>
                                   setProperty ''--accent'' (Accent hu sa li) s6)))))"

definition hide :: "host \<Rightarrow> animate option \<Rightarrow> real \<Rightarrow> painter \<Rightarrow> painter" where
  \<comment> \<open>\<open>hide({ animate })\<close>; the third argument is what \<open>performance.now()\<close> returns\<close>
  "hide h a perf_now s =
     (let animate = (case a of None \<Rightarrow> AnimateBool True | Some v \<Rightarrow> v);
          s1 = s\<lparr>sp_isHidden := True\<rparr>
      in if \<not> isCSSHoudiniSupported h \<or> sp_forceFallback s1
         then setProperty ''background'' VarFallback s1
         else startAnimation perf_now
                (set_t 0 (set_tstop None (set_fadeDuration (parseFadeDuration h animate) s1))))"

definition reveal :: "host \<Rightarrow> animate option \<Rightarrow> painter \<Rightarrow> painter" where
  "reveal h a s =
     (let animate = (case a of None \<Rightarrow> AnimateBool True | Some v \<Rightarrow> v);
          s1 = s\<lparr>sp_isHidden := False\<rparr>
      in if \<not> isCSSHoudiniSupported h \<or> sp_forceFallback s1
         then removeProperty ''background'' s1
         else
           (let duration = parseFadeDuration h animate;
                s2 = set_fadeDuration duration s1;
                s3 = set_tstop (Some (sp_t s2)) s2
            in if duration \<le> 0 then stopAnimation s3 else s3))"

definition destroy :: "painter \<Rightarrow> painter" where
  "destroy s =
     (let s1 = stopAnimation (s\<lparr>sp_wasDestroyed := True\<rparr>);
          s2 = fold removeProperty
                 [''background'', ''--t'', ''--t-stop'', ''--fade'', ''--gap'', ''--words'',
                  ''--density''] s1
      in if sp_observer s2 then s2\<lparr>sp_observer := False\<rparr> else s2)"

definition fresh :: painter where
  \<comment> \<open>the field initialisers\<close>
  "fresh = \<lparr>sp_style = Map.empty, sp_maxFPS = DEFAULT_FPS, sp_forceFallback = False,
     sp_wasDestroyed = False, sp_isHidden = False, sp_fadeDuration = 0, sp_t = 0,
     sp_t0 = 0, sp_tstop = None, sp_raf = None, sp_observer = False,
     raf_next = 1, raf_pending = []\<rparr>"

definition watchInViewport :: "host \<Rightarrow> painter \<Rightarrow> painter" where
  "watchInViewport h s = (if \<not> hasIntersectionObserver h then s else s\<lparr>sp_observer := True\<rparr>)"

definition construct :: "host \<Rightarrow> options \<Rightarrow> error + painter" where
  "construct h opts =
     (case update h opts (set_tstop (Some 0) fresh) of
        Inl e \<Rightarrow> Inl e
      | Inr s \<Rightarrow>
          Inr (if opt_onlyInViewport opts = Some True then watchInViewport h s else s))"

definition on_intersection :: "bool \<Rightarrow> real \<Rightarrow> painter \<Rightarrow> painter" where
  \<comment> \<open>the observer's callback for one entry\<close>
  "on_intersection isIntersecting perf_now s =
     (if \<not> isIntersecting then stopAnimation s else startAnimation perf_now s)"

section \<open>Properties of the PRNG\<close>

lemma uint_and31_le: "uint ((w :: 32 word) AND 0x7fffffff) \<le> 2147483647"
  using word_and_le1[of w "0x7fffffff"] by (simp add: word_le_def)

lemma sint_and31: "sint ((w :: 32 word) AND 0x7fffffff) = uint (w AND 0x7fffffff)"
proof -
  have lo: "- (2 ^ 31) \<le> uint (w AND 0x7fffffff)"
    by (rule order_trans[of _ 0]) simp_all
  have hi: "uint (w AND 0x7fffffff) < 2 ^ 31"
    using uint_and31_le[of w] by simp
  have "signed_take_bit 31 (uint (w AND 0x7fffffff)) = uint (w AND 0x7fffffff)"
    using lo hi by (rule signed_take_bit_int_eq_self)
  then show ?thesis by (simp add: sint_uint)
qed

lemma and31_range: "0 \<le> and31 x \<and> and31 x \<le> 2147483647"
  unfolding and31_def using uint_and31_le[of "word_of_int x"] by (simp add: sint_and31)

lemma lcg_bits_range: "0 \<le> lcg_bits s \<and> lcg_bits s \<le> 2147483647"
  unfolding lcg_bits_def by (rule and31_range)

lemma unit_fraction: "0 \<le> real_of_int (lcg_bits s) / 2147483647 \<and> real_of_int (lcg_bits s) / 2147483647 \<le> 1"
  using lcg_bits_range[of s] by simp

lemma lcgrand_fst: "fst (lcgrand s a b) = a + \<bar>b - a\<bar> * (real_of_int (lcg_bits (lcg_step s)) / 2147483647)"
  by (simp add: lcgrand_def Let_def)

lemma lcgrand_snd: "snd (lcgrand s a b) = lcg_step s"
  by (simp add: lcgrand_def Let_def)

lemma lcgrand_lower: "a \<le> fst (lcgrand s a b)"
  using unit_fraction[of "lcg_step s"] by (simp add: lcgrand_fst)

lemma lcgrand_upper: "fst (lcgrand s a b) \<le> a + \<bar>b - a\<bar>"
proof -
  have "\<bar>b - a\<bar> * (real_of_int (lcg_bits (lcg_step s)) / 2147483647) \<le> \<bar>b - a\<bar> * 1"
    using unit_fraction[of "lcg_step s"] by (intro mult_left_mono) simp_all
  then show ?thesis by (simp add: lcgrand_fst)
qed

lemma lcgrand_between: "a \<le> b \<Longrightarrow> a \<le> fst (lcgrand s a b) \<and> fst (lcgrand s a b) \<le> b"
  using lcgrand_lower[of a s b] lcgrand_upper[of s a b] by simp

text \<open>
  Claim C9, as the source has it. For every pair of bounds and every seed state a draw is
  \<open>a + |b - a| * k / (2^31 - 1)\<close> for an integer \<open>0 \<le> k \<le> 2^31 - 1\<close>: it lies in the
  closed range from \<open>a\<close> to \<open>a + |b - a|\<close> (from \<open>a\<close> to \<open>b\<close> when \<open>a \<le> b\<close>), a draw with
  \<open>a = b\<close> is the constant \<open>a\<close>, and the call has no failing branch: it always returns
  a value and the next seed state.
\<close>

theorem lcgrand_closed_range:
  "a \<le> fst (lcgrand seed a b) \<and> fst (lcgrand seed a b) \<le> a + \<bar>b - a\<bar>
   \<and> fst (lcgrand seed a a) = a \<and> snd (lcgrand seed a b) = lcg_step seed"
  using lcgrand_lower[of a seed b] lcgrand_upper[of seed a b]
  by (simp add: lcgrand_fst lcgrand_snd)

text \<open>
  The half-open range of claim C9 fails: from the seed state 1078560870 the masked
  product is \<open>2^31 - 1\<close>, and the default draw is exactly 1.
\<close>

theorem lcgrand_half_open_counterexample:
  "\<not> (0 \<le> fst (lcgrand_default 1078560870) \<and> fst (lcgrand_default 1078560870) < 1)"
  by (simp add: lcgrand_default_def lcgrand_def lcg_step_def lcg_bits_def imul_def and31_def)

section \<open>Properties of the wrap\<close>

lemma js_rem_nonneg: assumes "0 < n" "0 \<le> x" shows "0 \<le> js_rem x n \<and> js_rem x n < n"
proof -
  have q: "0 \<le> x / n" using assms by simp
  have lo: "real_of_int \<lfloor>x / n\<rfloor> * n \<le> x" using assms(1) by (rule floor_divide_lower)
  have hi: "x < (real_of_int \<lfloor>x / n\<rfloor> + 1) * n" using assms(1) by (rule floor_divide_upper)
  show ?thesis using q lo hi by (simp add: js_rem_def js_trunc_def algebra_simps)
qed

lemma js_rem_neg: assumes "0 < n" "x < 0" shows "- n < js_rem x n \<and> js_rem x n \<le> 0"
proof -
  have q: "\<not> 0 \<le> x / n" using assms by (simp add: divide_less_0_iff not_le)
  have hi: "x \<le> real_of_int \<lceil>x / n\<rceil> * n" using assms(1) by (rule ceiling_divide_upper)
  have lo: "(real_of_int \<lceil>x / n\<rceil> - 1) * n < x" using assms(1) by (rule ceiling_divide_lower)
  show ?thesis using q lo hi by (simp add: js_rem_def js_trunc_def algebra_simps)
qed

lemma cycle_range: assumes "0 < n" shows "0 \<le> cycle x n \<and> cycle x n < n"
proof -
  have "- n < js_rem x n"
    using js_rem_nonneg[OF assms, of x] js_rem_neg[OF assms, of x] assms by (cases "0 \<le> x") auto
  then have "0 \<le> js_rem x n + n" by simp
  then show ?thesis unfolding cycle_def by (rule js_rem_nonneg[OF assms])
qed

lemma mirror_cases:
  "(if x < r \<or> x > n - r then \<bar>mirror x n r - x\<bar> = \<bar>n\<bar> else mirror x n r = x)"
  by (simp add: mirror_def)

text \<open>
  Claim C2, as the source has it. On a surface of positive size \<open>cycleBounds\<close> always
  returns two positions: the wrapped one, inside the surface, and the mirrored one. On
  each axis the mirrored coordinate differs from the wrapped one by exactly the surface
  dimension when the wrapped coordinate is within \<open>r\<close> of an edge, and equals it
  otherwise.
\<close>

theorem cycleBounds_pair:
  assumes "0 < w" and "0 < h"
  shows "cycleBounds (x, y) (w, h) r
           = [(cycle x w, cycle y h), (mirror (cycle x w) w r, mirror (cycle y h) h r)]
     \<and> 0 \<le> cycle x w \<and> cycle x w < w \<and> 0 \<le> cycle y h \<and> cycle y h < h
     \<and> (if cycle x w < r \<or> cycle x w > w - r
         then \<bar>mirror (cycle x w) w r - cycle x w\<bar> = w
         else mirror (cycle x w) w r = cycle x w)
     \<and> (if cycle y h < r \<or> cycle y h > h - r
         then \<bar>mirror (cycle y h) h r - cycle y h\<bar> = h
         else mirror (cycle y h) h r = cycle y h)"
proof -
  have mx: "if cycle x w < r \<or> cycle x w > w - r
            then \<bar>mirror (cycle x w) w r - cycle x w\<bar> = w
            else mirror (cycle x w) w r = cycle x w"
    using mirror_cases[of "cycle x w" r w] assms(1) by simp
  have my: "if cycle y h < r \<or> cycle y h > h - r
            then \<bar>mirror (cycle y h) h r - cycle y h\<bar> = h
            else mirror (cycle y h) h r = cycle y h"
    using mirror_cases[of "cycle y h" r h] assms(2) by simp
  have "cycleBounds (x, y) (w, h) r
          = [(cycle x w, cycle y h), (mirror (cycle x w) w r, mirror (cycle y h) h r)]"
    by (simp add: cycleBounds_def Let_def)
  then show ?thesis
    using cycle_range[OF assms(1), of x] cycle_range[OF assms(2), of y] mx my by simp
qed

lemma cycle_examples: "cycle (- 3) 100 = 97" "cycle 250 100 = 50"
  by (simp_all add: cycle_def js_rem_def js_trunc_def)

theorem cycleBounds_pair_witness:
  "(0 :: real) < 100
   \<and> length (cycleBounds (- 3, 250) (100, 100) 5) = 2
   \<and> \<bar>mirror (cycle (- 3) 100) 100 5 - cycle (- 3) 100\<bar> = 100
   \<and> mirror (cycle 250 100) 100 5 = cycle 250 100"
proof -
  have w: "(0 :: real) < 100" by simp
  show ?thesis
    using cycleBounds_pair[OF w w, of "- 3" 250 5] by (simp add: cycle_examples)
qed

text \<open>
  Claim C2 as stated fails: a position in the middle of the surface, within \<open>r\<close> of no
  edge, still yields two positions (the same one twice), not one.
\<close>

theorem cycleBounds_single_counterexample:
  "cycleBounds (50, 50) (100, 100) 1 = [(50, 50), (50, 50)]
   \<and> length (cycleBounds (50, 50) (100, 100) 1) \<noteq> 1"
  by (simp add: cycleBounds_def cycle_def mirror_def js_rem_def js_trunc_def)

section \<open>Properties of the envelope and of the particle count\<close>




text \<open>
  The particle count is the lesser of 4000 and the surface area divided by the constant
  6 that \<open>paint\<close> binds itself, whatever the \<open>density\<close> channel holds.
\<close>

lemma particle_count_fixed_density:
  "s_n (surface_of env sz (ch\<lparr>ch_density := d\<rparr>))
     = min 4000 ((size_width sz / (if is_worklet env then 1 else devicePixelRatio env))
                 * (size_height sz / (if is_worklet env then 1 else devicePixelRatio env)) / 6)"
  by (simp add: surface_of_def density_def Let_def)

text \<open>
  Claim C7 on the source. The controller publishes the density (0.12 unless the caller
  overrides it) for the renderer, but \<open>paint\<close> does not read it: on a surface of 100 by
  100 pixels with 0.12 published the count is \<open>10000 / 6\<close>, not the lesser of the cap and
  \<open>10000 / 0.12\<close>, and with 12 published it is still \<open>10000 / 6\<close>, not \<open>10000 / 12\<close>.
\<close>

theorem particle_count_ignores_density:
  "s_n (surface_of \<lparr>is_worklet = True, devicePixelRatio = 1\<rparr>
          \<lparr>size_width = 100, size_height = 100\<rparr>
          \<lparr>ch_t = None, ch_gap = None, ch_accent = None, ch_density = Some 0.12\<rparr>)
     = 10000 / 6
   \<and> s_n (surface_of \<lparr>is_worklet = True, devicePixelRatio = 1\<rparr>
          \<lparr>size_width = 100, size_height = 100\<rparr>
          \<lparr>ch_t = None, ch_gap = None, ch_accent = None, ch_density = Some 0.12\<rparr>)
     \<noteq> min 4000 ((100 * 100) / 0.12)
   \<and> s_n (surface_of \<lparr>is_worklet = True, devicePixelRatio = 1\<rparr>
          \<lparr>size_width = 100, size_height = 100\<rparr>
          \<lparr>ch_t = None, ch_gap = None, ch_accent = None, ch_density = Some 12\<rparr>)
     \<noteq> min 4000 ((100 * 100) / 12)"
  by (simp add: surface_of_def density_def)

section \<open>Properties of the particle model\<close>

lemma particle_init_eq:
  "particle_init c s =
     (let lifetime = fst (lcgrand ((lcg_step ^^ 7) s) 0.3 1.5);
          respawn = fst (lcgrand ((lcg_step ^^ 8) s) 0 1);
          v0mag = fst (lcgrand ((lcg_step ^^ 2) s) vmin vmax);
          l = real_of_int (accent_light (s_accent c))
      in (\<lparr>p_x0 = fst (lcgrand s (s_vgap c) (s_width c - s_vgap c)),
           p_y0 = fst (lcgrand (lcg_step s) (s_hgap c) (s_height c - s_hgap c)),
           p_v0mag = v0mag,
           p_size0 = fst (lcgrand ((lcg_step ^^ 3) s) 1 (1 + s_sizedev c)),
           p_lightness = \<lfloor>lerp (l * 0.5) l (fst (lcgrand ((lcg_step ^^ 4) s) 0 1))\<rfloor>,
           p_v0 = pol2vec v0mag (fst (lcgrand ((lcg_step ^^ 5) s) 0 (pi * 2))),
           p_shape = (if fst (lcgrand ((lcg_step ^^ 6) s) 0 1) > 0.5 then Square else Circle),
           p_lifetime = lifetime,
           p_respawn = respawn,
           p_phase = fst (lcgrand ((lcg_step ^^ 9) s) 0 (lifetime + respawn))\<rparr>,
          (lcg_step ^^ 10) s))"
  by (simp add: particle_init_def case_prod_beta lcgrand_snd lcgrand_default_def Let_def
      eval_nat_numeral)

lemma particle_init_seed: "snd (particle_init c s) = (lcg_step ^^ 10) s"
  by (simp add: particle_init_eq Let_def)

lemma concat_map_upt_Suc:
  "concat (map f [0..<Suc m]) = f 0 @ concat (map (\<lambda>k. f (Suc k)) [0..<m])"
proof -
  have "[0..<Suc m] = 0 # map Suc [0..<m]"
    by (simp only: map_Suc_upt upt_conv_Cons[OF zero_less_Suc])
  then show ?thesis by (simp add: comp_def del: upt_Suc)
qed

lemma paint_loop_closed:
  "paint_loop c seed i =
     concat (map (\<lambda>k. particle_draws c (fst (particle_init c ((lcg_step ^^ (10 * k)) seed))))
               [0..<nat \<lceil>s_n c\<rceil> - i])"
proof (induction c seed i rule: paint_loop.induct)
  case (1 c seed i)
  show ?case
  proof (cases "real i < s_n c")
    case True
    then have "i < nat \<lceil>s_n c\<rceil>" by linarith
    then have len: "nat \<lceil>s_n c\<rceil> - i = Suc (nat \<lceil>s_n c\<rceil> - Suc i)" by simp
    have shift: "(lcg_step ^^ (10 * k)) (snd (particle_init c seed)) = (lcg_step ^^ (10 * Suc k)) seed" for k
    proof -
      have "(lcg_step ^^ (10 * k)) ((lcg_step ^^ 10) seed) = (lcg_step ^^ (10 * k + 10)) seed"
        by (simp only: funpow_add o_apply)
      also have "10 * k + 10 = 10 * Suc k" by simp
      finally show ?thesis by (simp only: particle_init_seed)
    qed
    have "paint_loop c seed i =
            particle_draws c (fst (particle_init c seed))
              @ paint_loop c (snd (particle_init c seed)) (Suc i)"
      using True by (subst paint_loop.simps) simp
    also have "\<dots> = particle_draws c (fst (particle_init c seed))
              @ concat (map (\<lambda>k. particle_draws c (fst (particle_init c ((lcg_step ^^ (10 * Suc k)) seed))))
                  [0..<nat \<lceil>s_n c\<rceil> - Suc i])"
      using "1.IH"[OF True] by (simp only: shift)
    also have "\<dots> = concat (map (\<lambda>k. particle_draws c (fst (particle_init c ((lcg_step ^^ (10 * k)) seed))))
               [0..<nat \<lceil>s_n c\<rceil> - i])"
      by (simp only: len concat_map_upt_Suc mult_0_right funpow_0)
    finally show ?thesis .
  next
    case False
    then have "nat \<lceil>s_n c\<rceil> - i = 0" by simp
    then show ?thesis using False by (subst paint_loop.simps) simp
  qed
qed

text \<open>
  Claim C3. One iteration of the loop draws ten values, each from the seed state that the
  previous draw left, in this order: origin x, origin y, initial speed, initial size,
  lightness blend factor, launch angle, shape choice, lifetime, respawn gap, phase. The
  iteration leaves the seed ten steps on, whether the particle is drawn or skipped, and
  neither the world time nor the particle count enters the particle. So \<open>paint\<close> draws,
  for each index \<open>i\<close> below the count, the particle that the seed derived from the base
  seed 19234 for \<open>i\<close> alone determines on the given surface.
\<close>

theorem draws_in_fixed_order:
  "particle_init c s =
     (let lifetime = fst (lcgrand ((lcg_step ^^ 7) s) 0.3 1.5);
          respawn = fst (lcgrand ((lcg_step ^^ 8) s) 0 1);
          v0mag = fst (lcgrand ((lcg_step ^^ 2) s) vmin vmax);
          l = real_of_int (accent_light (s_accent c))
      in (\<lparr>p_x0 = fst (lcgrand s (s_vgap c) (s_width c - s_vgap c)),
           p_y0 = fst (lcgrand (lcg_step s) (s_hgap c) (s_height c - s_hgap c)),
           p_v0mag = v0mag,
           p_size0 = fst (lcgrand ((lcg_step ^^ 3) s) 1 (1 + s_sizedev c)),
           p_lightness = \<lfloor>lerp (l * 0.5) l (fst (lcgrand ((lcg_step ^^ 4) s) 0 1))\<rfloor>,
           p_v0 = pol2vec v0mag (fst (lcgrand ((lcg_step ^^ 5) s) 0 (pi * 2))),
           p_shape = (if fst (lcgrand ((lcg_step ^^ 6) s) 0 1) > 0.5 then Square else Circle),
           p_lifetime = lifetime,
           p_respawn = respawn,
           p_phase = fst (lcgrand ((lcg_step ^^ 9) s) 0 (lifetime + respawn))\<rparr>,
          (lcg_step ^^ 10) s))
   \<and> particle_init (c\<lparr>s_worldt := worldt, s_n := n\<rparr>) s = particle_init c s
   \<and> paint env sz ch =
       ClearRect 0 0 (size_width sz) (size_height sz)
         # concat (map (\<lambda>i. particle_draws (surface_of env sz ch)
                                (particle_of_index (surface_of env sz ch) i))
                     [0..<nat \<lceil>s_n (surface_of env sz ch)\<rceil>])"
proof (intro conjI)
  show "particle_init (c\<lparr>s_worldt := worldt, s_n := n\<rparr>) s = particle_init c s"
    by (simp add: particle_init_eq)
  show "paint env sz ch =
       ClearRect 0 0 (size_width sz) (size_height sz)
         # concat (map (\<lambda>i. particle_draws (surface_of env sz ch)
                                (particle_of_index (surface_of env sz ch) i))
                     [0..<nat \<lceil>s_n (surface_of env sz ch)\<rceil>])"
    unfolding paint_def Let_def particle_of_index_def particle_seed_def
    by (simp only: paint_loop_closed diff_zero)
qed (rule particle_init_eq)

lemma visibility_unit: assumes "0 \<le> t" "t < l" shows "0 \<le> visibility t l \<and> visibility t l \<le> 1"
  using assms by (simp add: visibility_def trapezoidalWave_def)

lemma opacity_unit: assumes "0 \<le> t" "t < l" shows "0 \<le> opacity t l \<and> opacity t l \<le> 1"
  using assms by (simp add: opacity_def)

text \<open>
  Claim C6. A particle whose local age has reached its lifetime is skipped: nothing is
  drawn for it. For a local age in \<open>[0, lifetime)\<close> the particle is rendered with the
  opacity \<open>1 - t / lifetime\<close>, which lies in \<open>[0, 1]\<close>, and with a size envelope in
  \<open>[0, 1]\<close> that scales its size.
\<close>

theorem particle_visibility_bounds:
  "(local_age (s_worldt c) p \<ge> p_lifetime p \<longrightarrow> particle_state c p = None \<and> particle_draws c p = [])
   \<and> (0 \<le> local_age (s_worldt c) p \<and> local_age (s_worldt c) p < p_lifetime p \<longrightarrow>
        (\<exists>rs. particle_state c p = Some rs
           \<and> rs_alpha rs = 1 - local_age (s_worldt c) p / p_lifetime p
           \<and> 0 \<le> rs_alpha rs \<and> rs_alpha rs \<le> 1
           \<and> rs_visibility rs = visibility (local_age (s_worldt c) p) (p_lifetime p)
           \<and> 0 \<le> rs_visibility rs \<and> rs_visibility rs \<le> 1
           \<and> rs_size rs = p_size0 p * rs_visibility rs))"
proof (intro conjI impI)
  assume "p_lifetime p \<le> local_age (s_worldt c) p"
  then show "particle_state c p = None" by (simp add: particle_state_def Let_def)
  then show "particle_draws c p = []" by (simp add: particle_draws_def)
next
  assume a: "0 \<le> local_age (s_worldt c) p \<and> local_age (s_worldt c) p < p_lifetime p"
  then have "\<not> p_lifetime p \<le> local_age (s_worldt c) p" by simp
  then show "\<exists>rs. particle_state c p = Some rs
           \<and> rs_alpha rs = 1 - local_age (s_worldt c) p / p_lifetime p
           \<and> 0 \<le> rs_alpha rs \<and> rs_alpha rs \<le> 1
           \<and> rs_visibility rs = visibility (local_age (s_worldt c) p) (p_lifetime p)
           \<and> 0 \<le> rs_visibility rs \<and> rs_visibility rs \<le> 1
           \<and> rs_size rs = p_size0 p * rs_visibility rs"
    using visibility_unit[of "local_age (s_worldt c) p" "p_lifetime p"]
      opacity_unit[of "local_age (s_worldt c) p" "p_lifetime p"] a
    by (simp add: particle_state_def Let_def) (simp add: opacity_def)
qed

theorem particle_visibility_bounds_witness:
  "p_lifetime \<lparr>p_x0 = 10, p_y0 = 20, p_v0mag = 5, p_size0 = 1, p_lightness = 50, p_v0 = (3, 4),
       p_shape = Square, p_lifetime = 1, p_respawn = 1 / 2, p_phase = 1 / 4\<rparr>
     \<le> local_age 1 \<lparr>p_x0 = 10, p_y0 = 20, p_v0mag = 5, p_size0 = 1, p_lightness = 50,
           p_v0 = (3, 4), p_shape = Square, p_lifetime = 1, p_respawn = 1 / 2, p_phase = 1 / 4\<rparr>
   \<and> particle_draws
        \<lparr>s_worldt = 1, s_dprx = 1, s_accent = default_accent, s_width = 300, s_height = 100,
          s_vgap = 6, s_hgap = 6, s_n = 4000, s_sizedev = 0\<rparr>
        \<lparr>p_x0 = 10, p_y0 = 20, p_v0mag = 5, p_size0 = 1, p_lightness = 50, p_v0 = (3, 4),
          p_shape = Square, p_lifetime = 1, p_respawn = 1 / 2, p_phase = 1 / 4\<rparr> = []
   \<and> local_age 0 \<lparr>p_x0 = 10, p_y0 = 20, p_v0mag = 5, p_size0 = 1, p_lightness = 50,
         p_v0 = (3, 4), p_shape = Square, p_lifetime = 1, p_respawn = 1 / 2, p_phase = 1 / 4\<rparr>
       = 1 / 4
   \<and> (\<exists>rs. particle_state
          \<lparr>s_worldt = 0, s_dprx = 1, s_accent = default_accent, s_width = 300, s_height = 100,
            s_vgap = 6, s_hgap = 6, s_n = 4000, s_sizedev = 0\<rparr>
          \<lparr>p_x0 = 10, p_y0 = 20, p_v0mag = 5, p_size0 = 1, p_lightness = 50, p_v0 = (3, 4),
            p_shape = Square, p_lifetime = 1, p_respawn = 1 / 2, p_phase = 1 / 4\<rparr> = Some rs
        \<and> rs_alpha rs = 3 / 4 \<and> rs_visibility rs = 1)"
proof -
  have skipped: "local_age 1 \<lparr>p_x0 = 10, p_y0 = 20, p_v0mag = 5, p_size0 = 1, p_lightness = 50,
           p_v0 = (3, 4), p_shape = Square, p_lifetime = 1, p_respawn = 1 / 2, p_phase = 1 / 4\<rparr> = 1"
    by (simp add: local_age_def js_rem_def js_trunc_def)
  have alive: "local_age 0 \<lparr>p_x0 = 10, p_y0 = 20, p_v0mag = 5, p_size0 = 1, p_lightness = 50,
           p_v0 = (3, 4), p_shape = Square, p_lifetime = 1, p_respawn = 1 / 2, p_phase = 1 / 4\<rparr> = 1 / 4"
    by (simp add: local_age_def js_rem_def js_trunc_def)
  have vis: "visibility (1 / 4) 1 = 1"
    by (simp add: visibility_def trapezoidalWave_def)
  have dead: "particle_draws
        \<lparr>s_worldt = 1, s_dprx = 1, s_accent = default_accent, s_width = 300, s_height = 100,
          s_vgap = 6, s_hgap = 6, s_n = 4000, s_sizedev = 0\<rparr>
        \<lparr>p_x0 = 10, p_y0 = 20, p_v0mag = 5, p_size0 = 1, p_lightness = 50, p_v0 = (3, 4),
          p_shape = Square, p_lifetime = 1, p_respawn = 1 / 2, p_phase = 1 / 4\<rparr> = []"
    using particle_visibility_bounds[of
        "\<lparr>p_x0 = 10, p_y0 = 20, p_v0mag = 5, p_size0 = 1, p_lightness = 50, p_v0 = (3, 4),
          p_shape = Square, p_lifetime = 1, p_respawn = 1 / 2, p_phase = 1 / 4\<rparr>"
        "\<lparr>s_worldt = 1, s_dprx = 1, s_accent = default_accent, s_width = 300, s_height = 100,
          s_vgap = 6, s_hgap = 6, s_n = 4000, s_sizedev = 0\<rparr>"]
    by (simp add: skipped)
  obtain rs where rs: "particle_state
          \<lparr>s_worldt = 0, s_dprx = 1, s_accent = default_accent, s_width = 300, s_height = 100,
            s_vgap = 6, s_hgap = 6, s_n = 4000, s_sizedev = 0\<rparr>
          \<lparr>p_x0 = 10, p_y0 = 20, p_v0mag = 5, p_size0 = 1, p_lightness = 50, p_v0 = (3, 4),
            p_shape = Square, p_lifetime = 1, p_respawn = 1 / 2, p_phase = 1 / 4\<rparr> = Some rs"
      "rs_alpha rs = 1 - (1 / 4) / 1" "rs_visibility rs = visibility (1 / 4) 1"
    using particle_visibility_bounds[of
        "\<lparr>p_x0 = 10, p_y0 = 20, p_v0mag = 5, p_size0 = 1, p_lightness = 50, p_v0 = (3, 4),
          p_shape = Square, p_lifetime = 1, p_respawn = 1 / 2, p_phase = 1 / 4\<rparr>"
        "\<lparr>s_worldt = 0, s_dprx = 1, s_accent = default_accent, s_width = 300, s_height = 100,
          s_vgap = 6, s_hgap = 6, s_n = 4000, s_sizedev = 0\<rparr>"]
    by (auto simp: alive)
  have "rs_alpha rs = 3 / 4 \<and> rs_visibility rs = 1"
    using rs(2,3) by (simp add: vis)
  then show ?thesis using skipped alive dead rs(1) by auto
qed

text \<open>
  The particles that \<open>paint\<close> generates have a lifetime in \<open>[0.3, 1.5]\<close>, and at a
  world time that is not negative their local age is not negative.
\<close>

lemma generated_lifetime:
  "0.3 \<le> p_lifetime (fst (particle_init c s)) \<and> p_lifetime (fst (particle_init c s)) \<le> 1.5"
  using lcgrand_between[of "0.3" "1.5" "(lcg_step ^^ 7) s"] by (simp add: particle_init_eq Let_def)

lemma generated_respawn:
  "0 \<le> p_respawn (fst (particle_init c s)) \<and> p_respawn (fst (particle_init c s)) \<le> 1"
  using lcgrand_between[of 0 1 "(lcg_step ^^ 8) s"] by (simp add: particle_init_eq Let_def)

lemma generated_phase: "0 \<le> p_phase (fst (particle_init c s))"
  using lcgrand_lower[of 0 "(lcg_step ^^ 9) s"] by (simp add: particle_init_eq Let_def)

lemma generated_age_nonneg:
  assumes "0 \<le> worldt"
  shows "0 \<le> local_age worldt (fst (particle_init c s))"
proof -
  let ?p = "fst (particle_init c s)"
  have "0 < p_lifetime ?p + p_respawn ?p"
    using generated_lifetime[of c s] generated_respawn[of c s] by simp
  moreover have "0 \<le> worldt + p_phase ?p"
    using assms generated_phase[of c s] by simp
  ultimately have "0 \<le> js_rem (worldt + p_phase ?p) (p_lifetime ?p + p_respawn ?p)"
    using js_rem_nonneg by blast
  then show ?thesis using generated_lifetime[of c s] by (simp add: local_age_def)
qed

section \<open>Properties of the clock controller\<close>

lemma frame_destroyed: "sp_wasDestroyed s \<Longrightarrow> frame now s = s"
  by (simp add: frame_def)

lemma frame_pending:
  "raf_pending (frame now s) =
     (if \<not> sp_wasDestroyed s \<and> sp_maxFPS s > 0 \<and> \<not> shouldStop s
      then raf_pending s @ [raf_next s] else raf_pending s)"
  by (simp add: frame_def requestAnimationFrame_def set_t_def setProperty_def Let_def)

lemma frame_raf:
  "sp_raf (frame now s) =
     (if \<not> sp_wasDestroyed s \<and> sp_maxFPS s > 0 \<and> \<not> shouldStop s
      then Some (raf_next s) else sp_raf s)"
  by (simp add: frame_def requestAnimationFrame_def set_t_def setProperty_def Let_def)

lemma frame_keeps:
  "sp_wasDestroyed (frame now s) = sp_wasDestroyed s
   \<and> sp_maxFPS (frame now s) = sp_maxFPS s
   \<and> sp_tstop (frame now s) = sp_tstop s
   \<and> sp_fadeDuration (frame now s) = sp_fadeDuration s
   \<and> sp_style (frame now s) ''--t-stop'' = sp_style s ''--t-stop''"
  by (simp add: frame_def requestAnimationFrame_def set_t_def setProperty_def Let_def)

lemma frame_clock:
  "\<not> sp_wasDestroyed s \<Longrightarrow>
   (if now - sp_t0 s > 0 \<and> below_interval (now - sp_t0 s) (sp_maxFPS s)
    then sp_t (frame now s) = sp_t s \<and> sp_t0 (frame now s) = sp_t0 s
         \<and> sp_style (frame now s) = sp_style s
    else sp_t (frame now s) = sp_t s + (now - sp_t0 s) / 1000 \<and> sp_t0 (frame now s) = now
         \<and> sp_style (frame now s) ''--t''
             = Some (Fixed3 (sp_t s + (now - sp_t0 s) / 1000)))"
  by (simp add: frame_def requestAnimationFrame_def set_t_def setProperty_def Let_def)

lemma frame_next:
  "raf_next (frame now s) =
     (if \<not> sp_wasDestroyed s \<and> sp_maxFPS s > 0 \<and> \<not> shouldStop s
      then Suc (raf_next s) else raf_next s)"
  by (simp add: frame_def requestAnimationFrame_def set_t_def setProperty_def Let_def)

lemma deliver_single:
  "raf_pending s = [k] \<Longrightarrow> deliver_frame now s = frame now (s\<lparr>raf_pending := []\<rparr>)"
  by (simp add: deliver_frame_def)

lemma hide_fields:
  assumes "isCSSHoudiniSupported h" and "\<not> sp_forceFallback s" and "\<not> sp_wasDestroyed s"
    and "sp_maxFPS s > 0"
  shows "sp_t (hide h a now s) = 0 \<and> sp_t0 (hide h a now s) = now
     \<and> sp_tstop (hide h a now s) = None
     \<and> sp_raf (hide h a now s) = Some (raf_next s)
     \<and> raf_pending (hide h a now s) = raf_pending s @ [raf_next s]
     \<and> raf_next (hide h a now s) = Suc (raf_next s)
     \<and> \<not> sp_wasDestroyed (hide h a now s) \<and> sp_maxFPS (hide h a now s) = sp_maxFPS s
     \<and> sp_forceFallback (hide h a now s) = sp_forceFallback s"
proof -
  define s' where "s' = (set_t 0 (set_tstop None (set_fadeDuration
      (parseFadeDuration h (case a of None \<Rightarrow> AnimateBool True | Some v \<Rightarrow> v))
      (s\<lparr>sp_isHidden := True\<rparr>))))\<lparr>sp_t0 := now\<rparr>"
  have f: "\<not> sp_wasDestroyed s'" "sp_maxFPS s' = sp_maxFPS s" "sp_tstop s' = None"
    "sp_t s' = 0" "sp_t0 s' = now" "raf_next s' = raf_next s" "raf_pending s' = raf_pending s"
    "sp_forceFallback s' = sp_forceFallback s"
    using assms(3)
    by (simp_all add: s'_def set_t_def set_tstop_def set_fadeDuration_def setProperty_def
        removeProperty_def)
  have ns: "\<not> shouldStop s'" using f(3) by (simp add: shouldStop_def)
  have h: "hide h a now s = frame now s'"
    using assms(1,2) by (simp add: hide_def Let_def startAnimation_def s'_def)
  have k: "sp_forceFallback (frame now s') = sp_forceFallback s'"
    by (simp add: frame_def requestAnimationFrame_def set_t_def setProperty_def Let_def)
  show ?thesis
    using frame_clock[of s' now] frame_keeps[of now s'] f ns assms(4) k
    by (simp add: h frame_pending frame_raf frame_next)
qed

lemma reveal_fields:
  assumes "isCSSHoudiniSupported h" and "\<not> sp_forceFallback s"
    and "0 < parseFadeDuration h (case a of None \<Rightarrow> AnimateBool True | Some v \<Rightarrow> v)"
  shows "sp_tstop (reveal h a s) = Some (sp_t s)
     \<and> sp_fadeDuration (reveal h a s) = parseFadeDuration h (case a of None \<Rightarrow> AnimateBool True | Some v \<Rightarrow> v)
     \<and> sp_style (reveal h a s) ''--t-stop'' = Some (Fixed3 (sp_t s))
     \<and> sp_wasDestroyed (reveal h a s) = sp_wasDestroyed s
     \<and> sp_maxFPS (reveal h a s) = sp_maxFPS s
     \<and> raf_pending (reveal h a s) = raf_pending s
     \<and> sp_raf (reveal h a s) = sp_raf s
     \<and> raf_next (reveal h a s) = raf_next s
     \<and> sp_t (reveal h a s) = sp_t s
     \<and> sp_t0 (reveal h a s) = sp_t0 s"
  using assms
  by (simp add: reveal_def Let_def set_tstop_def set_fadeDuration_def setProperty_def)

text \<open>
  The throttle for an elapsed time that is not negative. On a frame tick of a running
  controller (not destroyed, a positive frame rate, no stop due) that arrives
  \<open>dt = now - t0 \<ge> 0\<close> milliseconds after the reference time, the next tick is
  requested first; then the clock advances by \<open>dt / 1000\<close> seconds, is published, and the
  reference time becomes \<open>now\<close> if and only if \<open>dt = 0\<close> or \<open>dt \<ge> 1000 / maxFPS\<close>;
  otherwise clock, reference time and published values stay as they are.
\<close>

lemma frame_throttle:
  assumes "\<not> sp_wasDestroyed s" and "sp_maxFPS s > 0" and "\<not> shouldStop s"
    and "sp_t0 s \<le> now"
  shows "raf_pending (frame now s) = raf_pending s @ [raf_next s]
     \<and> sp_raf (frame now s) = Some (raf_next s)
     \<and> (if now - sp_t0 s = 0 \<or> now - sp_t0 s \<ge> 1000 / sp_maxFPS s
        then sp_t (frame now s) = sp_t s + (now - sp_t0 s) / 1000
             \<and> sp_t0 (frame now s) = now
             \<and> sp_style (frame now s) ''--t''
                 = Some (Fixed3 (sp_t s + (now - sp_t0 s) / 1000))
        else sp_t (frame now s) = sp_t s \<and> sp_t0 (frame now s) = sp_t0 s
             \<and> sp_style (frame now s) = sp_style s)"
proof -
  have c: "(now - sp_t0 s > 0 \<and> below_interval (now - sp_t0 s) (sp_maxFPS s))
           \<longleftrightarrow> \<not> (now - sp_t0 s = 0 \<or> now - sp_t0 s \<ge> 1000 / sp_maxFPS s)"
    using assms(2,4) by (auto simp: below_interval_def)
  show ?thesis
    using frame_clock[OF assms(1), of now] assms(1-3)
    by (simp only: c frame_pending frame_raf) (simp split: if_splits)
qed

lemma frame_throttle_example:
  "sp_t (frame 10 (fresh\<lparr>sp_raf := Some 1, raf_next := 2\<rparr>)) = 0
   \<and> sp_t0 (frame 10 (fresh\<lparr>sp_raf := Some 1, raf_next := 2\<rparr>)) = 0
   \<and> raf_pending (frame 10 (fresh\<lparr>sp_raf := Some 1, raf_next := 2\<rparr>)) = [2]
   \<and> sp_t (frame 50 (fresh\<lparr>sp_raf := Some 1, raf_next := 2\<rparr>)) = 0.05
   \<and> sp_t0 (frame 50 (fresh\<lparr>sp_raf := Some 1, raf_next := 2\<rparr>)) = 50
   \<and> raf_pending (frame 50 (fresh\<lparr>sp_raf := Some 1, raf_next := 2\<rparr>)) = [2]"
  using frame_throttle[of "fresh\<lparr>sp_raf := Some 1, raf_next := 2\<rparr>" 10]
    frame_throttle[of "fresh\<lparr>sp_raf := Some 1, raf_next := 2\<rparr>" 50]
  by (simp add: fresh_def shouldStop_def DEFAULT_FPS_def)

lemma constructed_fields:
  "\<not> sp_forceFallback (projr (construct
       \<lparr>isCSSHoudiniSupported = True, prefersReducedMotion = False,
        hasIntersectionObserver = True, display_inline = False,
        rect_width = 300, rect_height = 100, client_rect_heights = [100],
        accent_hsl = (0, 0, 0)\<rparr>
       \<lparr>opt_fps = None, opt_gap = None, opt_density = None, opt_mimicWords = None,
        opt_accentColor = None, opt_fallback = None, opt_forceFallback = None,
        opt_onlyInViewport = None\<rparr>))
   \<and> \<not> sp_wasDestroyed (projr (construct
       \<lparr>isCSSHoudiniSupported = True, prefersReducedMotion = False,
        hasIntersectionObserver = True, display_inline = False,
        rect_width = 300, rect_height = 100, client_rect_heights = [100],
        accent_hsl = (0, 0, 0)\<rparr>
       \<lparr>opt_fps = None, opt_gap = None, opt_density = None, opt_mimicWords = None,
        opt_accentColor = None, opt_fallback = None, opt_forceFallback = None,
        opt_onlyInViewport = None\<rparr>))
   \<and> sp_maxFPS (projr (construct
       \<lparr>isCSSHoudiniSupported = True, prefersReducedMotion = False,
        hasIntersectionObserver = True, display_inline = False,
        rect_width = 300, rect_height = 100, client_rect_heights = [100],
        accent_hsl = (0, 0, 0)\<rparr>
       \<lparr>opt_fps = None, opt_gap = None, opt_density = None, opt_mimicWords = None,
        opt_accentColor = None, opt_fallback = None, opt_forceFallback = None,
        opt_onlyInViewport = None\<rparr>)) = 24
   \<and> sp_t (projr (construct
       \<lparr>isCSSHoudiniSupported = True, prefersReducedMotion = False,
        hasIntersectionObserver = True, display_inline = False,
        rect_width = 300, rect_height = 100, client_rect_heights = [100],
        accent_hsl = (0, 0, 0)\<rparr>
       \<lparr>opt_fps = None, opt_gap = None, opt_density = None, opt_mimicWords = None,
        opt_accentColor = None, opt_fallback = None, opt_forceFallback = None,
        opt_onlyInViewport = None\<rparr>)) = 0
   \<and> raf_next (projr (construct
       \<lparr>isCSSHoudiniSupported = True, prefersReducedMotion = False,
        hasIntersectionObserver = True, display_inline = False,
        rect_width = 300, rect_height = 100, client_rect_heights = [100],
        accent_hsl = (0, 0, 0)\<rparr>
       \<lparr>opt_fps = None, opt_gap = None, opt_density = None, opt_mimicWords = None,
        opt_accentColor = None, opt_fallback = None, opt_forceFallback = None,
        opt_onlyInViewport = None\<rparr>)) = 1
   \<and> raf_pending (projr (construct
       \<lparr>isCSSHoudiniSupported = True, prefersReducedMotion = False,
        hasIntersectionObserver = True, display_inline = False,
        rect_width = 300, rect_height = 100, client_rect_heights = [100],
        accent_hsl = (0, 0, 0)\<rparr>
       \<lparr>opt_fps = None, opt_gap = None, opt_density = None, opt_mimicWords = None,
        opt_accentColor = None, opt_fallback = None, opt_forceFallback = None,
        opt_onlyInViewport = None\<rparr>)) = []
   \<and> sp_style (projr (construct
       \<lparr>isCSSHoudiniSupported = True, prefersReducedMotion = False,
        hasIntersectionObserver = True, display_inline = False,
        rect_width = 300, rect_height = 100, client_rect_heights = [100],
        accent_hsl = (0, 0, 0)\<rparr>
       \<lparr>opt_fps = None, opt_gap = None, opt_density = None, opt_mimicWords = None,
        opt_accentColor = None, opt_fallback = None, opt_forceFallback = None,
        opt_onlyInViewport = None\<rparr>)) ''--density'' = Some (Density 0.12)"
  by (simp add: construct_def update_def update_block_def
      useBackgroundStyle_def number_of_gap_def set_tstop_def setProperty_def removeProperty_def
      fresh_def Let_def BLOCK_MAX_TILE_def GAP_RATIO_def DEFAULT_FPS_def)

text \<open>
  Claim C4 on the source. The callback returns early only for \<open>0 < dt < 1000 / maxFPS\<close>,
  so a frame whose time stamp lies before the reference time (\<open>dt < 0\<close>: neither
  \<open>dt = 0\<close> nor \<open>dt \<ge> 1000 / maxFPS\<close>) is not skipped: a running controller adds the
  negative \<open>dt / 1000\<close> to its clock, which runs backwards, and takes the earlier time
  stamp as its reference time.
\<close>

theorem frame_negative_elapsed:
  assumes "\<not> sp_wasDestroyed s" and "sp_maxFPS s > 0" and "now < sp_t0 s"
  shows "now - sp_t0 s \<noteq> 0 \<and> now - sp_t0 s < 1000 / sp_maxFPS s
     \<and> sp_t (frame now s) = sp_t s + (now - sp_t0 s) / 1000
     \<and> sp_t (frame now s) < sp_t s
     \<and> sp_t0 (frame now s) = now
     \<and> sp_style (frame now s) ''--t'' = Some (Fixed3 (sp_t s + (now - sp_t0 s) / 1000))"
proof -
  have neg: "now - sp_t0 s < 0" using assms(3) by simp
  have "0 < 1000 / sp_maxFPS s" using assms(2) by simp
  then have below: "now - sp_t0 s < 1000 / sp_maxFPS s" using neg by linarith
  have "\<not> (now - sp_t0 s > 0 \<and> below_interval (now - sp_t0 s) (sp_maxFPS s))"
    using neg by simp
  then have "sp_t (frame now s) = sp_t s + (now - sp_t0 s) / 1000 \<and> sp_t0 (frame now s) = now
     \<and> sp_style (frame now s) ''--t'' = Some (Fixed3 (sp_t s + (now - sp_t0 s) / 1000))"
    using frame_clock[OF assms(1), of now] by simp
  then show ?thesis using neg below by simp
qed

theorem frame_negative_elapsed_witness:
  "sp_t (frame 40 (fresh\<lparr>sp_t0 := 100, sp_raf := Some 1, raf_next := 2\<rparr>)) = - 0.06
   \<and> sp_t0 (frame 40 (fresh\<lparr>sp_t0 := 100, sp_raf := Some 1, raf_next := 2\<rparr>)) = 40
   \<and> sp_style (frame 40 (fresh\<lparr>sp_t0 := 100, sp_raf := Some 1, raf_next := 2\<rparr>)) ''--t''
       = Some (Fixed3 (- 0.06))"
  using frame_negative_elapsed[of "fresh\<lparr>sp_t0 := 100, sp_raf := Some 1, raf_next := 2\<rparr>" 40]
  by (simp add: fresh_def DEFAULT_FPS_def)

text \<open>
  The public operations reach it: a controller constructed on a block element of 300 by
  100 pixels is hidden while \<open>performance.now()\<close> reads 100, and the host runs the
  requested frame with the time stamp 40.
\<close>

lemma negative_elapsed_scenario:
  "sp_t (deliver_frame 40
      (hide \<lparr>isCSSHoudiniSupported = True, prefersReducedMotion = False,
             hasIntersectionObserver = True, display_inline = False,
             rect_width = 300, rect_height = 100, client_rect_heights = [100],
             accent_hsl = (0, 0, 0)\<rparr> None 100
        (projr (construct
           \<lparr>isCSSHoudiniSupported = True, prefersReducedMotion = False,
            hasIntersectionObserver = True, display_inline = False,
            rect_width = 300, rect_height = 100, client_rect_heights = [100],
            accent_hsl = (0, 0, 0)\<rparr>
           \<lparr>opt_fps = None, opt_gap = None, opt_density = None, opt_mimicWords = None,
            opt_accentColor = None, opt_fallback = None, opt_forceFallback = None,
            opt_onlyInViewport = None\<rparr>)))) = - 0.06
   \<and> sp_t0 (deliver_frame 40
      (hide \<lparr>isCSSHoudiniSupported = True, prefersReducedMotion = False,
             hasIntersectionObserver = True, display_inline = False,
             rect_width = 300, rect_height = 100, client_rect_heights = [100],
             accent_hsl = (0, 0, 0)\<rparr> None 100
        (projr (construct
           \<lparr>isCSSHoudiniSupported = True, prefersReducedMotion = False,
            hasIntersectionObserver = True, display_inline = False,
            rect_width = 300, rect_height = 100, client_rect_heights = [100],
            accent_hsl = (0, 0, 0)\<rparr>
           \<lparr>opt_fps = None, opt_gap = None, opt_density = None, opt_mimicWords = None,
            opt_accentColor = None, opt_fallback = None, opt_forceFallback = None,
            opt_onlyInViewport = None\<rparr>)))) = 40"
proof -
  define h where "h = \<lparr>isCSSHoudiniSupported = True, prefersReducedMotion = False,
             hasIntersectionObserver = True, display_inline = False,
             rect_width = 300, rect_height = 100, client_rect_heights = [100],
             accent_hsl = (0, 0, 0)\<rparr>"
  define s0 where "s0 = projr (construct h
           \<lparr>opt_fps = None, opt_gap = None, opt_density = None, opt_mimicWords = None,
            opt_accentColor = None, opt_fallback = None, opt_forceFallback = None,
            opt_onlyInViewport = None\<rparr>)"
  have hh: "isCSSHoudiniSupported h" by (simp add: h_def)
  have c0: "\<not> sp_forceFallback s0" "\<not> sp_wasDestroyed s0" "sp_maxFPS s0 = 24"
    "raf_next s0 = 1" "raf_pending s0 = []"
    using constructed_fields by (simp_all add: s0_def h_def)
  have pos: "sp_maxFPS s0 > 0" using c0(3) by simp
  define a0 where "a0 = hide h None 100 s0"
  have a0: "sp_t a0 = 0" "sp_t0 a0 = 100" "raf_pending a0 = [1]" "\<not> sp_wasDestroyed a0"
    using hide_fields[OF hh c0(1) c0(2) pos, of None 100] c0 by (simp_all add: a0_def)
  define b0 where "b0 = a0\<lparr>raf_pending := []\<rparr>"
  have b0: "\<not> sp_wasDestroyed b0" "sp_t b0 = 0" "sp_t0 b0 = 100"
    using a0 by (simp_all add: b0_def)
  have e: "deliver_frame 40 a0 = frame 40 b0"
    using deliver_single[OF a0(3), of 40] by (simp add: b0_def)
  have "sp_t (frame 40 b0) = - 0.06 \<and> sp_t0 (frame 40 b0) = 40"
    using frame_clock[OF b0(1), of 40] b0 by simp
  then show ?thesis by (simp add: e[symmetric] a0_def s0_def h_def)
qed

text \<open>
  Claim C1, as the source has it. For a controller that is not destroyed, with a stop
  mark other than 0, a positive fade duration and a clock beyond stop mark plus fade
  duration, the frame callback requests no further tick, and it leaves the stop mark and
  the published \<open>--t-stop\<close> as they are; when the tick that ran was the only one pending,
  nothing runs afterwards: a later frame of the host leaves the controller unchanged.
\<close>

theorem frame_auto_stop:
  assumes "\<not> sp_wasDestroyed s" and "sp_tstop s = Some ts" and "ts \<noteq> 0"
    and "0 < sp_fadeDuration s" and "sp_t s > ts + sp_fadeDuration s"
  shows "raf_pending (frame now s) = raf_pending s
     \<and> sp_tstop (frame now s) = Some ts
     \<and> sp_style (frame now s) ''--t-stop'' = sp_style s ''--t-stop''
     \<and> (raf_pending s = [] \<longrightarrow> deliver_frame later (frame now s) = frame now s)"
proof -
  have stop: "shouldStop s" using assms(2,3,5) by (simp add: shouldStop_def)
  have p: "raf_pending (frame now s) = raf_pending s" using stop by (simp add: frame_pending)
  have idle: "deliver_frame later (frame now s) = frame now s" if "raf_pending s = []"
    using that p by (simp add: deliver_frame_def)
  show ?thesis using p idle frame_keeps[of now s] assms(2) by simp
qed

theorem frame_auto_stop_witness:
  "raf_pending
     (frame 2200 (fresh\<lparr>sp_style := [''--t-stop'' \<mapsto> Fixed3 1], sp_fadeDuration := 1,
        sp_t := 2.1, sp_t0 := 2100, sp_tstop := Some 1, sp_raf := Some 3, raf_next := 4\<rparr>)) = []
   \<and> deliver_frame 2300
        (frame 2200 (fresh\<lparr>sp_style := [''--t-stop'' \<mapsto> Fixed3 1], sp_fadeDuration := 1,
           sp_t := 2.1, sp_t0 := 2100, sp_tstop := Some 1, sp_raf := Some 3, raf_next := 4\<rparr>))
      = frame 2200 (fresh\<lparr>sp_style := [''--t-stop'' \<mapsto> Fixed3 1], sp_fadeDuration := 1,
           sp_t := 2.1, sp_t0 := 2100, sp_tstop := Some 1, sp_raf := Some 3, raf_next := 4\<rparr>)"
  using frame_auto_stop[of "fresh\<lparr>sp_style := [''--t-stop'' \<mapsto> Fixed3 1], sp_fadeDuration := 1,
        sp_t := 2.1, sp_t0 := 2100, sp_tstop := Some 1, sp_raf := Some 3, raf_next := 4\<rparr>" 1 2200 2300]
  by (simp add: fresh_def)

text \<open>
  Claim C1 as stated fails. A controller revealed at clock 1 with fade duration 1, whose
  clock has reached 2.1, runs its pending tick (handle 3) at time 2200: afterwards
  \<open>isAnimating\<close> is still true, since \<open>#raf\<close> keeps the handle, and \<open>--t-stop\<close> is still
  published.
\<close>

theorem auto_stop_counterexample:
  "isAnimating
     (frame 2200 (fresh\<lparr>sp_style := [''--t-stop'' \<mapsto> Fixed3 1], sp_fadeDuration := 1,
        sp_t := 2.1, sp_t0 := 2100, sp_tstop := Some 1, sp_raf := Some 3, raf_next := 4\<rparr>))
   \<and> sp_style
        (frame 2200 (fresh\<lparr>sp_style := [''--t-stop'' \<mapsto> Fixed3 1], sp_fadeDuration := 1,
           sp_t := 2.1, sp_t0 := 2100, sp_tstop := Some 1, sp_raf := Some 3, raf_next := 4\<rparr>))
        ''--t-stop'' = Some (Fixed3 1)"
  by (simp add: isAnimating_def frame_raf frame_keeps shouldStop_def fresh_def)

text \<open>
  That state is reached by the public operations: a controller constructed on a block
  element of 300 by 100 pixels is hidden at time 0, a frame runs at time 1000, the
  content is revealed with a fade of one second, and a frame runs at time 2100. The
  frame at time 2200 then stops the loop, with \<open>isAnimating\<close> still true and
  \<open>--t-stop\<close> still published.
\<close>

lemma reveal_scenario:
  fixes h :: host and s0 s1 s2 s3 s4 :: painter
  defines "h \<equiv> \<lparr>isCSSHoudiniSupported = True, prefersReducedMotion = False,
              hasIntersectionObserver = True, display_inline = False,
              rect_width = 300, rect_height = 100, client_rect_heights = [100],
              accent_hsl = (0, 0, 0)\<rparr>"
    and "s0 \<equiv> projr (construct h
               \<lparr>opt_fps = None, opt_gap = None, opt_density = None, opt_mimicWords = None,
                opt_accentColor = None, opt_fallback = None, opt_forceFallback = None,
                opt_onlyInViewport = None\<rparr>)"
    and "s1 \<equiv> deliver_frame 1000 (hide h None 0 s0)"
    and "s2 \<equiv> deliver_frame 2100 (reveal h (Some (AnimateNumber 1)) s1)"
    and "s3 \<equiv> deliver_frame 2200 s2"
  shows "sp_tstop s2 = Some 1 \<and> sp_fadeDuration s2 = 1 \<and> sp_t s2 = 2.1 \<and> sp_t0 s2 = 2100
       \<and> sp_raf s2 = Some 3 \<and> raf_pending s2 = [3] \<and> raf_next s2 = 4
       \<and> sp_style s2 ''--t-stop'' = Some (Fixed3 1)
       \<and> \<not> sp_wasDestroyed s2 \<and> sp_maxFPS s2 = 24
       \<and> raf_pending s3 = [] \<and> isAnimating s3
       \<and> sp_style s3 ''--t-stop'' = Some (Fixed3 1)"
proof -
  have hh: "isCSSHoudiniSupported h" "\<not> prefersReducedMotion h" by (simp_all add: h_def)
  have c0: "\<not> sp_forceFallback s0" "\<not> sp_wasDestroyed s0" "sp_maxFPS s0 = 24"
    "raf_next s0 = 1" "raf_pending s0 = []"
    by (simp_all add: s0_def h_def construct_def update_def update_block_def
        useBackgroundStyle_def number_of_gap_def set_tstop_def setProperty_def removeProperty_def
        fresh_def Let_def BLOCK_MAX_TILE_def GAP_RATIO_def)
  define a0 where "a0 = hide h None 0 s0"
  have a0: "sp_t a0 = 0" "sp_t0 a0 = 0" "sp_tstop a0 = None" "sp_raf a0 = Some 1"
    "raf_pending a0 = [1]" "raf_next a0 = 2" "\<not> sp_wasDestroyed a0" "sp_maxFPS a0 = 24"
    "\<not> sp_forceFallback a0"
    using hide_fields[OF hh(1) c0(1) c0(2), of None 0] c0 by (simp_all add: a0_def)
  define b0 where "b0 = a0\<lparr>raf_pending := []\<rparr>"
  have b0: "\<not> sp_wasDestroyed b0" "sp_maxFPS b0 = 24" "\<not> shouldStop b0"
    "sp_t b0 = 0" "sp_t0 b0 = 0" "raf_next b0 = 2" "raf_pending b0 = []"
    "sp_forceFallback b0 = False"
    using a0 by (simp_all add: b0_def shouldStop_def)
  have s1e: "s1 = frame 1000 b0"
    using deliver_single[OF a0(5), of 1000] by (simp add: s1_def a0_def b0_def)
  have k1: "sp_forceFallback (frame 1000 b0) = sp_forceFallback b0"
    by (simp add: frame_def requestAnimationFrame_def set_t_def setProperty_def Let_def)
  have s1: "sp_t s1 = 1" "sp_t0 s1 = 1000" "sp_raf s1 = Some 2" "raf_pending s1 = [2]"
    "raf_next s1 = 3" "\<not> sp_wasDestroyed s1" "sp_maxFPS s1 = 24" "\<not> sp_forceFallback s1"
    using frame_clock[OF b0(1), of 1000] frame_keeps[of 1000 b0] b0 k1
    by (simp_all add: s1e frame_pending frame_raf frame_next below_interval_def)
  define a1 where "a1 = reveal h (Some (AnimateNumber 1)) s1"
  have pf: "0 < parseFadeDuration h (case Some (AnimateNumber 1) of None \<Rightarrow> AnimateBool True | Some v \<Rightarrow> v)"
    using hh by (simp add: parseFadeDuration_def)
  have a1: "sp_tstop a1 = Some 1" "sp_fadeDuration a1 = 1"
    "sp_style a1 ''--t-stop'' = Some (Fixed3 1)" "\<not> sp_wasDestroyed a1" "sp_maxFPS a1 = 24"
    "raf_pending a1 = [2]" "sp_raf a1 = Some 2"
    using reveal_fields[OF hh(1) s1(8) pf] s1 hh
    by (simp_all add: a1_def parseFadeDuration_def)
  have a1': "sp_t a1 = 1" "sp_t0 a1 = 1000" "raf_next a1 = 3"
    using reveal_fields[OF hh(1) s1(8) pf] s1 by (simp_all add: a1_def)
  define b1 where "b1 = a1\<lparr>raf_pending := []\<rparr>"
  have b1: "\<not> sp_wasDestroyed b1" "sp_maxFPS b1 = 24" "\<not> shouldStop b1"
    "sp_t b1 = 1" "sp_t0 b1 = 1000" "raf_next b1 = 3" "raf_pending b1 = []"
    "sp_tstop b1 = Some 1" "sp_fadeDuration b1 = 1" "sp_style b1 ''--t-stop'' = Some (Fixed3 1)"
    using a1 a1' by (simp_all add: b1_def shouldStop_def)
  have s2e: "s2 = frame 2100 b1"
    using deliver_single[OF a1(6), of 2100] by (simp add: s2_def a1_def b1_def)
  have s2: "sp_tstop s2 = Some 1" "sp_fadeDuration s2 = 1" "sp_t s2 = 2.1" "sp_t0 s2 = 2100"
    "sp_raf s2 = Some 3" "raf_pending s2 = [3]" "raf_next s2 = 4"
    "sp_style s2 ''--t-stop'' = Some (Fixed3 1)" "\<not> sp_wasDestroyed s2" "sp_maxFPS s2 = 24"
    using frame_clock[OF b1(1), of 2100] frame_keeps[of 2100 b1] b1
    by (simp_all add: s2e frame_pending frame_raf frame_next below_interval_def)
  define b2 where "b2 = s2\<lparr>raf_pending := []\<rparr>"
  have b2: "shouldStop b2" "sp_raf b2 = Some 3" "raf_pending b2 = []"
    "sp_style b2 ''--t-stop'' = Some (Fixed3 1)"
    using s2 by (simp_all add: b2_def shouldStop_def)
  have s3e: "s3 = frame 2200 b2"
    using deliver_single[OF s2(6), of 2200] by (simp add: s3_def b2_def)
  have s3: "raf_pending s3 = []" "isAnimating s3" "sp_style s3 ''--t-stop'' = Some (Fixed3 1)"
    using frame_keeps[of 2200 b2] b2
    by (simp_all add: s3e frame_pending frame_raf isAnimating_def)
  show ?thesis using s2 s3 by simp
qed

text \<open>How a stop mark of 0 keeps the loop alive.\<close>

lemma run_callbacks_zero_mark:
  assumes "\<not> sp_wasDestroyed s" and "sp_maxFPS s > 0" and "sp_tstop s = Some 0"
  shows "\<not> sp_wasDestroyed (run_callbacks hs now s)
     \<and> sp_maxFPS (run_callbacks hs now s) = sp_maxFPS s
     \<and> sp_tstop (run_callbacks hs now s) = Some 0
     \<and> length (raf_pending (run_callbacks hs now s)) = length (raf_pending s) + length hs"
  using assms
proof (induction hs arbitrary: s)
  case Nil
  then show ?case by simp
next
  case (Cons h hs)
  have ns: "\<not> shouldStop s" using Cons.prems(3) by (simp add: shouldStop_def)
  have k: "\<not> sp_wasDestroyed (frame now s)" "sp_maxFPS (frame now s) > 0"
    "sp_tstop (frame now s) = Some 0" "sp_maxFPS (frame now s) = sp_maxFPS s"
    using Cons.prems frame_keeps[of now s] by simp_all
  have p: "length (raf_pending (frame now s)) = Suc (length (raf_pending s))"
    using Cons.prems ns by (simp add: frame_pending)
  show ?case using Cons.IH[OF k(1-3)] k(4) p by simp
qed

lemma deliver_frame_zero_mark:
  assumes "\<not> sp_wasDestroyed s" and "sp_maxFPS s > 0" and "sp_tstop s = Some 0"
    and "raf_pending s \<noteq> []"
  shows "\<not> sp_wasDestroyed (deliver_frame now s)
     \<and> sp_maxFPS (deliver_frame now s) > 0
     \<and> sp_tstop (deliver_frame now s) = Some 0
     \<and> raf_pending (deliver_frame now s) \<noteq> []"
proof -
  have "length (raf_pending (deliver_frame now s)) = length (raf_pending s)"
    using run_callbacks_zero_mark[of "s\<lparr>raf_pending := []\<rparr>" "raf_pending s" now] assms(1-3)
    by (simp add: deliver_frame_def)
  then have "raf_pending (deliver_frame now s) \<noteq> []" using assms(4) by auto
  then show ?thesis
    using run_callbacks_zero_mark[of "s\<lparr>raf_pending := []\<rparr>" "raf_pending s" now] assms(1-3)
    by (simp add: deliver_frame_def)
qed

lemma frames_zero_mark:
  assumes "\<not> sp_wasDestroyed s" and "sp_maxFPS s > 0" and "sp_tstop s = Some 0"
    and "raf_pending s \<noteq> []"
  shows "\<not> sp_wasDestroyed (fold deliver_frame nows s)
     \<and> sp_maxFPS (fold deliver_frame nows s) > 0
     \<and> sp_tstop (fold deliver_frame nows s) = Some 0
     \<and> raf_pending (fold deliver_frame nows s) \<noteq> []"
  using assms
proof (induction nows arbitrary: s)
  case Nil
  then show ?case by simp
next
  case (Cons now nows)
  show ?case
    using Cons.IH[of "deliver_frame now s"] deliver_frame_zero_mark[OF Cons.prems, of now]
    by simp
qed

text \<open>
  Claim C10. When \<open>reveal\<close> is called with a positive fade duration while the clock is
  exactly 0 (animated rendering in use, controller not destroyed, positive frame rate, a
  tick pending), the stop mark becomes 0; the stop condition tests the stop mark for
  truthiness, so it is false after any number of frames of the host, whatever their
  time stamps, and a tick is pending again after each of them.
\<close>

theorem reveal_at_zero_never_stops:
  assumes "isCSSHoudiniSupported h" and "\<not> sp_forceFallback s" and "\<not> sp_wasDestroyed s"
    and "sp_maxFPS s > 0" and "raf_pending s \<noteq> []" and "sp_t s = 0"
    and "0 < parseFadeDuration h (case a of None \<Rightarrow> AnimateBool True | Some v \<Rightarrow> v)"
  shows "sp_tstop (reveal h a s) = Some 0
     \<and> (\<forall>nows. \<not> shouldStop (fold deliver_frame nows (reveal h a s))
               \<and> raf_pending (fold deliver_frame nows (reveal h a s)) \<noteq> [])"
proof -
  have r: "\<not> sp_wasDestroyed (reveal h a s)" "sp_maxFPS (reveal h a s) > 0"
    "sp_tstop (reveal h a s) = Some 0" "raf_pending (reveal h a s) \<noteq> []"
    using reveal_fields[OF assms(1,2,7)] assms(3-6) by simp_all
  have "\<not> shouldStop (fold deliver_frame nows (reveal h a s))
        \<and> raf_pending (fold deliver_frame nows (reveal h a s)) \<noteq> []" for nows
    using frames_zero_mark[OF r, of nows] by (simp add: shouldStop_def)
  then show ?thesis using r(3) by blast
qed

theorem reveal_at_zero_never_stops_witness:
  "sp_tstop
     (reveal \<lparr>isCSSHoudiniSupported = True, prefersReducedMotion = False,
              hasIntersectionObserver = True, display_inline = False,
              rect_width = 300, rect_height = 100, client_rect_heights = [100],
              accent_hsl = (0, 0, 0)\<rparr> None
        (fresh\<lparr>sp_raf := Some 1, raf_next := 2, raf_pending := [1]\<rparr>)) = Some 0
   \<and> raf_pending
       (fold deliver_frame [16, 60, 5000]
         (reveal \<lparr>isCSSHoudiniSupported = True, prefersReducedMotion = False,
              hasIntersectionObserver = True, display_inline = False,
              rect_width = 300, rect_height = 100, client_rect_heights = [100],
              accent_hsl = (0, 0, 0)\<rparr> None
            (fresh\<lparr>sp_raf := Some 1, raf_next := 2, raf_pending := [1]\<rparr>))) \<noteq> []"
proof -
  have "sp_tstop
     (reveal \<lparr>isCSSHoudiniSupported = True, prefersReducedMotion = False,
              hasIntersectionObserver = True, display_inline = False,
              rect_width = 300, rect_height = 100, client_rect_heights = [100],
              accent_hsl = (0, 0, 0)\<rparr> None
        (fresh\<lparr>sp_raf := Some 1, raf_next := 2, raf_pending := [1]\<rparr>)) = Some 0
   \<and> (\<forall>nows. \<not> shouldStop (fold deliver_frame nows
         (reveal \<lparr>isCSSHoudiniSupported = True, prefersReducedMotion = False,
              hasIntersectionObserver = True, display_inline = False,
              rect_width = 300, rect_height = 100, client_rect_heights = [100],
              accent_hsl = (0, 0, 0)\<rparr> None
            (fresh\<lparr>sp_raf := Some 1, raf_next := 2, raf_pending := [1]\<rparr>)))
       \<and> raf_pending
       (fold deliver_frame nows
         (reveal \<lparr>isCSSHoudiniSupported = True, prefersReducedMotion = False,
              hasIntersectionObserver = True, display_inline = False,
              rect_width = 300, rect_height = 100, client_rect_heights = [100],
              accent_hsl = (0, 0, 0)\<rparr> None
            (fresh\<lparr>sp_raf := Some 1, raf_next := 2, raf_pending := [1]\<rparr>))) \<noteq> [])"
    by (rule reveal_at_zero_never_stops)
      (simp_all add: fresh_def parseFadeDuration_def DEFAULT_FADE_DURATION_def DEFAULT_FPS_def)
  then show ?thesis by blast
qed

text \<open>Operations on a destroyed controller.\<close>

lemma stopAnimation_keeps:
  "sp_wasDestroyed (stopAnimation s) = sp_wasDestroyed s
   \<and> sp_forceFallback (stopAnimation s) = sp_forceFallback s
   \<and> sp_isHidden (stopAnimation s) = sp_isHidden s
   \<and> sp_observer (stopAnimation s) = sp_observer s
   \<and> sp_style (stopAnimation s) = sp_style s"
  by (cases "sp_raf s") (simp_all add: stopAnimation_def cancelAnimationFrame_def)

lemma removeProperty_keeps:
  "sp_wasDestroyed (removeProperty k s) = sp_wasDestroyed s
   \<and> sp_forceFallback (removeProperty k s) = sp_forceFallback s
   \<and> sp_observer (removeProperty k s) = sp_observer s
   \<and> sp_style (removeProperty k s) = (sp_style s)(k := None)"
  by (simp add: removeProperty_def)

lemma destroy_fields:
  "sp_wasDestroyed (destroy s) \<and> sp_forceFallback (destroy s) = sp_forceFallback s
   \<and> sp_style (destroy s) ''--t'' = None \<and> sp_style (destroy s) ''background'' = None"
  by (simp add: destroy_def Let_def removeProperty_keeps stopAnimation_keeps)

lemma update_destroyed: "sp_wasDestroyed s \<Longrightarrow> update h opts s = Inl PainterDestroyed"
  by (simp add: update_def)

lemma hide_destroyed:
  assumes "sp_wasDestroyed s"
  shows "hide h a now s =
     (if \<not> isCSSHoudiniSupported h \<or> sp_forceFallback s
      then setProperty ''background'' VarFallback (s\<lparr>sp_isHidden := True\<rparr>)
      else (set_t 0 (set_tstop None
              (set_fadeDuration (parseFadeDuration h (case a of None \<Rightarrow> AnimateBool True | Some v \<Rightarrow> v))
                 (s\<lparr>sp_isHidden := True\<rparr>))))\<lparr>sp_t0 := now\<rparr>)"
proof -
  have d: "sp_wasDestroyed (set_t 0 (set_tstop None (set_fadeDuration v (s\<lparr>sp_isHidden := True\<rparr>))))" for v
    using assms by (simp add: set_t_def set_tstop_def set_fadeDuration_def setProperty_def removeProperty_def)
  show ?thesis
    by (simp add: hide_def Let_def startAnimation_def frame_destroyed d)
qed

lemma reveal_isHidden: "\<not> sp_isHidden (reveal h a s)"
proof -
  have k: "sp_isHidden (stopAnimation x) = sp_isHidden x" for x
    by (simp add: stopAnimation_keeps)
  show ?thesis
    by (simp add: reveal_def Let_def k set_tstop_def set_fadeDuration_def setProperty_def removeProperty_def)
qed

text \<open>
  Claim C8 on the source: after \<open>destroy\<close>, \<open>update\<close> throws, but \<open>hide\<close> and
  \<open>reveal\<close> have no such guard. \<open>hide\<close> returns normally, marks the controller hidden
  and writes to the style of the torn-down element (\<open>--t\<close>, or the fallback
  background); \<open>reveal\<close> returns normally as well.
\<close>

theorem use_after_destroy:
  "update h opts (destroy s) = Inl PainterDestroyed
   \<and> sp_isHidden (hide h a now (destroy s))
   \<and> sp_style (hide h a now (destroy s))
        (if isCSSHoudiniSupported h \<and> \<not> sp_forceFallback s then ''--t'' else ''background'')
      = Some (if isCSSHoudiniSupported h \<and> \<not> sp_forceFallback s then Fixed3 0 else VarFallback)
   \<and> \<not> sp_isHidden (reveal h a (destroy s))"
proof -
  have d: "sp_wasDestroyed (destroy s)" "sp_forceFallback (destroy s) = sp_forceFallback s"
    using destroy_fields[of s] by simp_all
  have hd: "sp_isHidden (hide h a now (destroy s))
     \<and> sp_style (hide h a now (destroy s))
        (if isCSSHoudiniSupported h \<and> \<not> sp_forceFallback s then ''--t'' else ''background'')
      = Some (if isCSSHoudiniSupported h \<and> \<not> sp_forceFallback s then Fixed3 0 else VarFallback)"
    by (simp add: hide_destroyed[OF d(1)] d(2) set_t_def set_tstop_def
        set_fadeDuration_def setProperty_def removeProperty_def)
  show ?thesis using update_destroyed[OF d(1)] hd reveal_isHidden by simp
qed

theorem use_after_destroy_witness:
  "update \<lparr>isCSSHoudiniSupported = True, prefersReducedMotion = False,
            hasIntersectionObserver = True, display_inline = False,
            rect_width = 300, rect_height = 100, client_rect_heights = [100],
            accent_hsl = (0, 0, 0)\<rparr>
      \<lparr>opt_fps = None, opt_gap = None, opt_density = None, opt_mimicWords = None,
        opt_accentColor = None, opt_fallback = None, opt_forceFallback = None,
        opt_onlyInViewport = None\<rparr> (destroy fresh) = Inl PainterDestroyed
   \<and> sp_isHidden
        (hide \<lparr>isCSSHoudiniSupported = True, prefersReducedMotion = False,
               hasIntersectionObserver = True, display_inline = False,
               rect_width = 300, rect_height = 100, client_rect_heights = [100],
               accent_hsl = (0, 0, 0)\<rparr> None 0 (destroy fresh))
   \<and> sp_style
        (hide \<lparr>isCSSHoudiniSupported = True, prefersReducedMotion = False,
               hasIntersectionObserver = True, display_inline = False,
               rect_width = 300, rect_height = 100, client_rect_heights = [100],
               accent_hsl = (0, 0, 0)\<rparr> None 0 (destroy fresh)) ''--t'' = Some (Fixed3 0)"
  using use_after_destroy[of
      "\<lparr>isCSSHoudiniSupported = True, prefersReducedMotion = False,
        hasIntersectionObserver = True, display_inline = False,
        rect_width = 300, rect_height = 100, client_rect_heights = [100],
        accent_hsl = (0, 0, 0)\<rparr>"
      "\<lparr>opt_fps = None, opt_gap = None, opt_density = None, opt_mimicWords = None,
        opt_accentColor = None, opt_fallback = None, opt_forceFallback = None,
        opt_onlyInViewport = None\<rparr>" fresh None 0]
  by (simp add: fresh_def)

end
